theory Spec2Isabelle
  imports Main "HOL-Library.AList"
begin

section \<open>JavaScript values and objects\<close>

text \<open>
  The attendance poller is JavaScript. The values that flow through the pipeline are
  primitives and plain objects. A number is modelled by an integer (user ids, serial
  numbers and epoch milliseconds are integers far below \<open>10^21\<close>, where
  \<open>String(n)\<close> is the decimal numeral). A \<open>Date\<close> object held by a raw device
  log is only ever passed to \<open>new Date(...)\<close>, where it behaves as the number of its
  time value does, so it is represented by \<open>Num\<close> (an invalid one by \<open>Undefined\<close>,
  which \<open>new Date\<close> makes an invalid date as well).
\<close>

datatype jsval = Undefined | Null | Bool bool | Num int | Str string

text \<open>
  A plain object is the list of its own properties in insertion order. Reading a
  property that is absent gives \<open>undefined\<close>; assigning a property keeps its place
  when it exists and appends it otherwise (\<open>AList.update\<close>). The properties inherited
  from \<open>Object.prototype\<close> are not part of the model.
\<close>

type_synonym jsobj = "(string \<times> jsval) list"

definition get_prop :: "jsobj \<Rightarrow> string \<Rightarrow> jsval" where
  "get_prop obj k = (case map_of obj k of None \<Rightarrow> Undefined | Some v \<Rightarrow> v)"

text \<open>Truthiness, as \<open>&&\<close>, \<open>||\<close> and \<open>if\<close> test it.\<close>

fun truthy :: "jsval \<Rightarrow> bool" where
  "truthy Undefined = False"
| "truthy Null = False"
| "truthy (Bool b) = b"
| "truthy (Num n) = (n \<noteq> 0)"
| "truthy (Str s) = (s \<noteq> [])"

definition digit_char :: "nat \<Rightarrow> char" where
  "digit_char d = ''0123456789'' ! (d mod 10)"

fun nat_to_string :: "nat \<Rightarrow> string" where
  "nat_to_string n =
     (if n < 10 then [digit_char n] else nat_to_string (n div 10) @ [digit_char (n mod 10)])"

declare nat_to_string.simps [simp del]

definition int_to_string :: "int \<Rightarrow> string" where
  "int_to_string i = (if i < 0 then CHR ''-'' # nat_to_string (nat (- i)) else nat_to_string (nat i))"

text \<open>\<open>String(v)\<close>, the conversion a template literal and a property key apply.\<close>

fun toString :: "jsval \<Rightarrow> string" where
  "toString Undefined = ''undefined''"
| "toString Null = ''null''"
| "toString (Bool b) = (if b then ''true'' else ''false'')"
| "toString (Num n) = int_to_string n"
| "toString (Str s) = s"

text \<open>
  A thrown value is represented by what the code reads of it, its property \<open>message\<close>
  (\<open>undefined\<close> when the value has none). A thrown \<open>null\<close> or \<open>undefined\<close>, of which no
  property can be read, is outside the model.
\<close>

datatype js_error = JsError (message: jsval)

section \<open>Dates\<close>

text \<open>
  A time value is a number of milliseconds since the epoch, or \<open>NaN\<close> (\<open>None\<close>) for an
  invalid date. The calendar arithmetic below is the proleptic Gregorian calendar in
  UTC that ECMAScript prescribes for \<open>Date\<close>.
\<close>

definition pad :: "nat \<Rightarrow> nat \<Rightarrow> string" where
  "pad w n = replicate (w - length (nat_to_string n)) CHR ''0'' @ nat_to_string n"

definition days_from_civil :: "int \<Rightarrow> int \<Rightarrow> int \<Rightarrow> int" where
  "days_from_civil y m d =
     (let y' = (if m \<le> 2 then y - 1 else y);
          era = y' div 400;
          yoe = y' - era * 400;
          doy = (153 * (if m > 2 then m - 3 else m + 9) + 2) div 5 + d - 1;
          doe = yoe * 365 + yoe div 4 - yoe div 100 + doy
      in era * 146097 + doe - 719468)"

definition civil_from_days :: "int \<Rightarrow> int \<times> int \<times> int" where
  "civil_from_days z =
     (let z' = z + 719468;
          era = z' div 146097;
          doe = z' - era * 146097;
          yoe = (doe - doe div 1460 + doe div 36524 - doe div 146096) div 365;
          y = yoe + era * 400;
          doy = doe - (365 * yoe + yoe div 4 - yoe div 100);
          mp = (5 * doy + 2) div 153;
          d = doy - (153 * mp + 2) div 5 + 1;
          m = (if mp < 10 then mp + 3 else mp - 9)
      in (if m \<le> 2 then y + 1 else y, m, d))"

definition is_leap :: "int \<Rightarrow> bool" where
  "is_leap y = (y mod 4 = 0 \<and> (if y mod 100 = 0 then y mod 400 = 0 else True))"

definition days_in_month :: "int \<Rightarrow> int \<Rightarrow> int" where
  "days_in_month y m =
     (if m = 2 then (if is_leap y then 29 else 28)
      else if m = 4 \<or> m = 6 \<or> m = 9 \<or> m = 11 then 30 else 31)"

definition digit_val :: "char \<Rightarrow> nat option" where
  "digit_val c =
     map_of [(CHR ''0'', 0), (CHR ''1'', 1), (CHR ''2'', 2), (CHR ''3'', 3), (CHR ''4'', 4),
             (CHR ''5'', 5), (CHR ''6'', 6), (CHR ''7'', 7), (CHR ''8'', 8), (CHR ''9'', 9)] c"

fun digits_val :: "nat \<Rightarrow> string \<Rightarrow> nat option" where
  "digits_val acc [] = Some acc"
| "digits_val acc (c # cs) =
     (case digit_val c of None \<Rightarrow> None | Some d \<Rightarrow> digits_val (acc * 10 + d) cs)"

definition number_at :: "string \<Rightarrow> nat \<Rightarrow> nat \<Rightarrow> int option" where
  "number_at s i n =
     (if length s < i + n then None else map_option int (digits_val 0 (take n (drop i s))))"

text \<open>
  \<open>parse_utc\<close> reads the two forms of the ECMAScript date-time string format that
  \<open>toISOString\<close> writes for the years 0000 to 9999 and that the specification's
  scenario uses: \<open>YYYY-MM-DDTHH:mm:ssZ\<close> and \<open>YYYY-MM-DDTHH:mm:ss.sssZ\<close>, every field
  in its range.
\<close>

definition parse_utc :: "string \<Rightarrow> int option" where
  "parse_utc s =
     (if (length s = 20 \<or> length s = 24)
         \<and> s ! 4 = CHR ''-'' \<and> s ! 7 = CHR ''-'' \<and> s ! 10 = CHR ''T''
         \<and> s ! 13 = CHR '':'' \<and> s ! 16 = CHR '':'' \<and> last s = CHR ''Z''
         \<and> (if length s = 24 then s ! 19 = CHR ''.'' else True)
      then
        (case (number_at s 0 4, number_at s 5 2, number_at s 8 2,
               number_at s 11 2, number_at s 14 2, number_at s 17 2,
               if length s = 24 then number_at s 20 3 else Some 0) of
           (Some y, Some mo, Some d, Some h, Some mi, Some se, Some ms) \<Rightarrow>
             if 1 \<le> mo \<and> mo \<le> 12 \<and> 1 \<le> d \<and> d \<le> days_in_month y mo
                \<and> h \<le> 23 \<and> mi \<le> 59 \<and> se \<le> 59
             then Some (days_from_civil y mo d * 86400000
                        + h * 3600000 + mi * 60000 + se * 1000 + ms)
             else None
         | _ \<Rightarrow> None)
      else None)"

text \<open>
  \<open>Date.parse\<close>: a string in the format above has the time value the format gives it.
  What an engine makes of any other string (other forms of the format, local time,
  the legacy formats such as \<open>Date.prototype.toString\<close> output) is the parameter
  \<open>other\<close>.
\<close>

definition Date_parse :: "(string \<Rightarrow> int option) \<Rightarrow> string \<Rightarrow> int option" where
  "Date_parse other s = (case parse_utc s of Some t \<Rightarrow> Some t | None \<Rightarrow> other s)"

definition TimeClip :: "int \<Rightarrow> int option" where
  "TimeClip t = (if \<bar>t\<bar> \<le> 8640000000000000 then Some t else None)"

text \<open>\<open>new Date(v).getTime()\<close> for a single argument \<open>v\<close>.\<close>

fun new_Date :: "(string \<Rightarrow> int option) \<Rightarrow> jsval \<Rightarrow> int option" where
  "new_Date other Undefined = None"
| "new_Date other Null = Some 0"
| "new_Date other (Bool b) = Some (if b then 1 else 0)"
| "new_Date other (Num n) = TimeClip n"
| "new_Date other (Str s) = Date_parse other s"

text \<open>\<open>toISOString\<close> throws a \<open>RangeError\<close> on an invalid date.\<close>

definition iso_year :: "int \<Rightarrow> string" where
  "iso_year y =
     (if 0 \<le> y \<and> y \<le> 9999 then pad 4 (nat y)
      else (if y < 0 then CHR ''-'' else CHR ''+'') # pad 6 (nat \<bar>y\<bar>))"

definition toISOString :: "int option \<Rightarrow> js_error + string" where
  "toISOString tv =
     (case tv of
        None \<Rightarrow> Inl (JsError (Str ''Invalid time value''))
      | Some t \<Rightarrow>
          (let day = t div 86400000; r = t mod 86400000;
               (y, m, d) = civil_from_days day
           in Inr (iso_year y @ ''-'' @ pad 2 (nat m) @ ''-'' @ pad 2 (nat d) @ ''T''
                   @ pad 2 (nat (r div 3600000)) @ '':''
                   @ pad 2 (nat (r mod 3600000 div 60000)) @ '':''
                   @ pad 2 (nat (r mod 60000 div 1000)) @ ''.''
                   @ pad 3 (nat (r mod 1000)) @ ''Z'')))"

text \<open>The number in a template literal: \<open>NaN\<close> prints as \<open>NaN\<close>.\<close>

definition time_to_string :: "int option \<Rightarrow> string" where
  "time_to_string tv = (case tv of None \<Rightarrow> ''NaN'' | Some t \<Rightarrow> int_to_string t)"

section \<open>The signature deduplicator\<close>

definition createRecordSignature :: "(string \<Rightarrow> int option) \<Rightarrow> jsobj \<Rightarrow> string" where
  "createRecordSignature other record =
     toString (get_prop record ''deviceIP'') @ ''_'' @ toString (get_prop record ''deviceUserId'')
       @ ''_'' @ time_to_string (new_Date other (get_prop record ''recordTime''))"

section \<open>The device fetcher\<close>

text \<open>
  One terminal as one fetch sees it: the outcome of each call of the device SDK, which
  either returns or throws an error object. \<open>getUsers\<close> and \<open>getAttendances\<close> return
  the array the code reads through \<open>?.data\<close>, or nothing to read (\<open>None\<close>: the reply
  or its \<open>data\<close> is missing). \<open>getInfo\<close> returns an object or nothing.
\<close>

record device =
  createSocket :: "js_error + unit"
  getInfo :: "js_error + jsobj option"
  getUsers :: "js_error + jsobj list option"
  getAttendances :: "js_error + jsobj list option"
  disconnect :: "js_error + unit"

datatype sdk_call = CreateSocket | GetInfo | GetUsers | GetAttendances | Disconnect

record device_data =
  info :: jsobj
  allUsers :: "jsobj list"
  adminUsers :: "jsobj list"
  attendanceLogs :: "jsobj list"
  deviceIP :: string
  status :: string
  error :: "jsval option"

text \<open>\<open>userMap[user.userId] = user.name\<close>, for each user in turn; the key is a string.\<close>

definition userMap_of :: "jsobj list \<Rightarrow> jsobj" where
  "userMap_of users =
     foldl (\<lambda>m user. AList.update (toString (get_prop user ''userId'')) (get_prop user ''name'') m)
       [] users"

text \<open>
  The object literal that enriches one log. Its last property calls \<open>toISOString\<close>,
  which throws on a record time that is no valid date.
\<close>

definition enhance :: "(string \<Rightarrow> int option) \<Rightarrow> string \<Rightarrow> jsobj \<Rightarrow> jsobj \<Rightarrow> js_error + jsobj" where
  "enhance other ip userMap log =
     (let named = get_prop userMap (toString (get_prop log ''deviceUserId''));
          o1 = AList.update ''name'' (if truthy named then named else Str ''Unknown'') log;
          o2 = AList.update ''type'' (Str (if ip = ''192.168.18.253'' then ''IN'' else ''OUT'')) o1;
          o3 = AList.update ''deviceIP'' (Str ip) o2
      in case toISOString (new_Date other (get_prop log ''recordTime'')) of
           Inl e \<Rightarrow> Inl e
         | Inr isoTime \<Rightarrow> Inr (AList.update ''recordTime'' (Str isoTime) o3))"

fun enhanceLogs :: "(string \<Rightarrow> int option) \<Rightarrow> string \<Rightarrow> jsobj \<Rightarrow> jsobj list \<Rightarrow> js_error + jsobj list" where
  "enhanceLogs other ip userMap [] = Inr []"
| "enhanceLogs other ip userMap (log # logs) =
     (case enhance other ip userMap log of
        Inl e \<Rightarrow> Inl e
      | Inr r \<Rightarrow> (case enhanceLogs other ip userMap logs of
                    Inl e \<Rightarrow> Inl e
                  | Inr rs \<Rightarrow> Inr (r # rs)))"

text \<open>The object the \<open>catch\<close> block returns.\<close>

definition offline :: "string \<Rightarrow> js_error \<Rightarrow> device_data" where
  "offline ip err =
     \<lparr>info = [], allUsers = [], adminUsers = [], attendanceLogs = [], deviceIP = ip,
      status = ''offline'', error = Some (message err)\<rparr>"

text \<open>
  \<open>fetchDeviceData\<close> returns the device snapshot, and with it the SDK calls it made,
  in order. Every statement of the \<open>try\<close> block that can throw is a branch.
\<close>

definition fetchDeviceData ::
  "(string \<Rightarrow> int option) \<Rightarrow> string \<Rightarrow> device \<Rightarrow> device_data \<times> sdk_call list" where
  "fetchDeviceData other ip zkInstance =
     (case createSocket zkInstance of
        Inl err \<Rightarrow> (offline ip err, [CreateSocket])
      | Inr _ \<Rightarrow>
     (case getInfo zkInstance of
        Inl err \<Rightarrow> (offline ip err, [CreateSocket, GetInfo])
      | Inr device_info \<Rightarrow>
     (case getUsers zkInstance of
        Inl err \<Rightarrow> (offline ip err, [CreateSocket, GetInfo, GetUsers])
      | Inr users \<Rightarrow>
     (case getAttendances zkInstance of
        Inl err \<Rightarrow> (offline ip err, [CreateSocket, GetInfo, GetUsers, GetAttendances])
      | Inr logs \<Rightarrow>
     (let users_data = (case users of None \<Rightarrow> [] | Some us \<Rightarrow> us);
          admins = filter (\<lambda>u. get_prop u ''role'' = Num 14) users_data;
          logs_data = (case logs of None \<Rightarrow> [] | Some ls \<Rightarrow> ls)
      in case enhanceLogs other ip (userMap_of users_data) logs_data of
           Inl err \<Rightarrow> (offline ip err, [CreateSocket, GetInfo, GetUsers, GetAttendances])
         | Inr enhancedLogs \<Rightarrow>
        (case disconnect zkInstance of
           Inl err \<Rightarrow>
             (offline ip err, [CreateSocket, GetInfo, GetUsers, GetAttendances, Disconnect])
         | Inr _ \<Rightarrow>
             (\<lparr>info = (case device_info of None \<Rightarrow> [] | Some i \<Rightarrow> i), allUsers = users_data,
               adminUsers = admins, attendanceLogs = enhancedLogs, deviceIP = ip,
               status = ''online'', error = None\<rparr>,
              [CreateSocket, GetInfo, GetUsers, GetAttendances, Disconnect])))))))"

section \<open>The record store\<close>

text \<open>
  A file of the data directory holds text that is not JSON, a JSON array, or another
  JSON value. An element of the array is \<open>null\<close>, an object, or a value whose
  properties all read as \<open>undefined\<close>.
\<close>

datatype json_item = ItemNull | ItemObject jsobj | ItemOther

datatype file_content = NotJson | JsonArray "json_item list" | JsonOther

text \<open>\<open>JSON.stringify\<close> leaves out the properties whose value is \<open>undefined\<close>.\<close>

definition stringify :: "jsobj list \<Rightarrow> file_content" where
  "stringify records = JsonArray (map (\<lambda>r. ItemObject (filter (\<lambda>kv. snd kv \<noteq> Undefined) r)) records)"

record csharp_record =
  UserSN :: jsval
  DeviceUserID :: string
  UserName :: jsval
  RecordTime :: "int option"
  DeviceIP :: jsval
  RecordType :: jsval

text \<open>What the process does to the world outside it, in the order it does it.\<close>

datatype effect =
    ExistsSync string
  | ReadFileSync string
  | WriteFileSync string file_content
  | UnlinkSync string
  | AxiosPost "csharp_record list"

text \<open>
  The global state of the process (\<open>allAttendanceRecords\<close>, \<open>uniqueSignatures\<close>, a
  \<open>Set\<close> kept as the list of its elements in insertion order, \<open>latestDeviceData\<close>),
  the files of the data directory by name, and the effects so far.
\<close>

record state =
  allAttendanceRecords :: "jsobj list"
  uniqueSignatures :: "string list"
  latestDeviceData :: "(string \<times> device_data) list"
  files :: "(string \<times> file_content) list"
  effects :: "effect list"

definition initializing :: "string \<Rightarrow> device_data" where
  "initializing ip =
     \<lparr>info = [], allUsers = [], adminUsers = [], attendanceLogs = [], deviceIP = ip,
      status = ''initializing'', error = None\<rparr>"

definition initial_state :: "(string \<times> file_content) list \<Rightarrow> state" where
  "initial_state fs =
     \<lparr>allAttendanceRecords = [], uniqueSignatures = [],
      latestDeviceData = [(''192.168.18.253'', initializing ''192.168.18.253''),
                          (''192.168.18.252'', initializing ''192.168.18.252'')],
      files = fs, effects = []\<rparr>"

text \<open>
  What a cycle or a load finds around it: the current UTC day, the terminals by
  address, whether
  \<open>writeFileSync\<close> throws, and the outcome of the HTTP POST (axios rejects when the
  collector is unreachable or answers outside 2xx).
\<close>

record env =
  today :: string
  terminal :: "string \<Rightarrow> device"
  write_fails :: bool
  post_outcome :: "js_error + jsval"

definition day_file :: "string \<Rightarrow> string" where
  "day_file day = ''attendance_'' @ day @ ''.json''"

text \<open>
  The \<open>forEach\<close> of \<open>loadExistingRecords\<close> over the parsed array. Reading a property of
  \<open>null\<close> throws a \<open>TypeError\<close>: the result is \<open>None\<close>.
\<close>

fun load_items ::
  "(string \<Rightarrow> int option) \<Rightarrow> json_item list \<Rightarrow> jsobj list \<times> string list
     \<Rightarrow> (jsobj list \<times> string list) option" where
  "load_items other [] acc = Some acc"
| "load_items other (ItemNull # items) acc = None"
| "load_items other (ItemOther # items) acc = load_items other items acc"
| "load_items other (ItemObject item # items) (records, sigs) =
     (if truthy (get_prop item ''deviceUserId'') \<and> truthy (get_prop item ''recordTime'')
      then (let sig = createRecordSignature other item
            in if sig \<in> set sigs then load_items other items (records, sigs)
               else load_items other items (records @ [item], sigs @ [sig]))
      else load_items other items (records, sigs))"

definition loadExistingRecords :: "(string \<Rightarrow> int option) \<Rightarrow> env \<Rightarrow> state \<Rightarrow> state" where
  "loadExistingRecords other e s =
     (let filepath = day_file (today e);
          cleared = s\<lparr>allAttendanceRecords := [], uniqueSignatures := [],
                      effects := effects s @ [ExistsSync filepath]\<rparr>
      in case map_of (files s) filepath of
           None \<Rightarrow> cleared
         | Some content \<Rightarrow>
             (let s1 = cleared\<lparr>effects := effects cleared @ [ReadFileSync filepath]\<rparr>
              in case content of
                   NotJson \<Rightarrow> s1
                 | JsonOther \<Rightarrow> s1
                 | JsonArray items \<Rightarrow>
                     (case load_items other items ([], []) of
                        None \<Rightarrow> s1
                      | Some (records, sigs) \<Rightarrow>
                          s1\<lparr>allAttendanceRecords := records, uniqueSignatures := sigs\<rparr>)))"

text \<open>\<open>saveRecords\<close> catches and logs a failed write.\<close>

definition saveRecords :: "env \<Rightarrow> state \<Rightarrow> state" where
  "saveRecords e s =
     (let filepath = day_file (today e);
          content = stringify (allAttendanceRecords s);
          s1 = s\<lparr>effects := effects s @ [WriteFileSync filepath content]\<rparr>
      in if write_fails e then s1
         else s1\<lparr>files := AList.update filepath content (files s)\<rparr>)"

section \<open>The batch aggregator\<close>

definition devices :: "string list" where
  "devices = [''192.168.18.253'', ''192.168.18.252'']"

datatype 'a settled = Fulfilled 'a | Rejected js_error

text \<open>
  The dedup loop of a cycle over one terminal's logs: \<open>allAttendanceRecords\<close>,
  \<open>uniqueSignatures\<close> and \<open>newRecordsCount\<close> are threaded through.
\<close>

fun checkNewRecords ::
  "(string \<Rightarrow> int option) \<Rightarrow> jsobj list \<Rightarrow> jsobj list \<times> string list \<times> nat
     \<Rightarrow> jsobj list \<times> string list \<times> nat" where
  "checkNewRecords other [] acc = acc"
| "checkNewRecords other (record # logs) (records, sigs, n) =
     (let sig = createRecordSignature other record
      in if sig \<in> set sigs then checkNewRecords other logs (records, sigs, n)
         else checkNewRecords other logs (records @ [record], sigs @ [sig], Suc n))"

text \<open>The local variables of a cycle.\<close>

record batch =
  currentBatchData :: "(string \<times> device_data) list"
  combinedLogs :: "jsobj list"
  combinedAllUsers :: "jsobj list"
  combinedAdminUsers :: "jsobj list"
  new_count :: nat

definition empty_batch :: batch where
  "empty_batch =
     \<lparr>currentBatchData = [], combinedLogs = [], combinedAllUsers = [],
      combinedAdminUsers = [], new_count = 0\<rparr>"

text \<open>
  \<open>results.forEach\<close>: each settled result with the address at its index. The three
  empty placeholders of \<open>currentBatchData\<close> are each overwritten, in the order in which
  the literal lists them, so the model starts from no entry.
\<close>

fun eachResult ::
  "(string \<Rightarrow> int option) \<Rightarrow> (string \<times> device_data settled) list \<Rightarrow> state \<times> batch
     \<Rightarrow> state \<times> batch" where
  "eachResult other [] sb = sb"
| "eachResult other ((ip, Fulfilled deviceData) # results) (s, b) =
     (case checkNewRecords other (attendanceLogs deviceData)
             (allAttendanceRecords s, uniqueSignatures s, new_count b) of
        (records, sigs, n) \<Rightarrow>
          eachResult other results
            (s\<lparr>allAttendanceRecords := records, uniqueSignatures := sigs\<rparr>,
             b\<lparr>currentBatchData := AList.update ip deviceData (currentBatchData b),
               combinedLogs := combinedLogs b @ attendanceLogs deviceData,
               combinedAllUsers := combinedAllUsers b @ allUsers deviceData,
               combinedAdminUsers := combinedAdminUsers b @ adminUsers deviceData,
               new_count := n\<rparr>))"
| "eachResult other ((ip, Rejected reason) # results) (s, b) =
     eachResult other results
       (s, b\<lparr>currentBatchData := AList.update ip (offline ip reason) (currentBatchData b)\<rparr>)"

text \<open>
  \<open>[...new Map(users.map(user => [user.userId, user])).values()]\<close>: a \<open>Map\<close> keeps a
  key at the place of its first insertion and the value of its last.
\<close>

definition uniqueByUserId :: "jsobj list \<Rightarrow> jsobj list" where
  "uniqueByUserId users =
     map snd (foldl (\<lambda>m user. AList.update (get_prop user ''userId'') user m) [] users)"

definition combined_view :: "batch \<Rightarrow> device_data" where
  "combined_view b =
     \<lparr>info = [(''type'', Str ''Combined View''),
              (''userCounts'', Num (int (length (combinedAllUsers b)))),
              (''logCount'', Num (int (length (combinedLogs b))))],
      allUsers = uniqueByUserId (combinedAllUsers b),
      adminUsers = uniqueByUserId (combinedAdminUsers b),
      attendanceLogs = combinedLogs b,
      deviceIP = ''Multiple Devices'', status = ''online'', error = None\<rparr>"

text \<open>
  The part the two cycle functions share, up to the assignment of \<open>latestDeviceData\<close>.
  \<open>fetchDeviceData\<close> never rejects, so \<open>Promise.allSettled\<close> gives fulfilled results;
  the two fetches share no state and are run one after the other.
\<close>

definition settle_all :: "(string \<Rightarrow> int option) \<Rightarrow> env \<Rightarrow> (string \<times> device_data settled) list" where
  "settle_all other e =
     map (\<lambda>ip. (ip, Fulfilled (fst (fetchDeviceData other ip (terminal e ip))))) devices"

definition run_batch :: "(string \<Rightarrow> int option) \<Rightarrow> env \<Rightarrow> state \<Rightarrow> state \<times> batch" where
  "run_batch other e s =
     (case eachResult other (settle_all other e) (s, empty_batch) of
        (s1, b) \<Rightarrow>
          (s1\<lparr>latestDeviceData :=
                 AList.update ''combined'' (combined_view b) (currentBatchData b)\<rparr>, b))"

record cycle_result =
  deviceData :: "(string \<times> device_data) list"
  combinedData :: device_data
  newRecordsCount :: nat
  totalRecords :: nat

definition fetchAndSaveNewRecords ::
  "(string \<Rightarrow> int option) \<Rightarrow> env \<Rightarrow> state \<Rightarrow> cycle_result \<times> state" where
  "fetchAndSaveNewRecords other e s =
     (case run_batch other e s of
        (s1, b) \<Rightarrow>
          (let s2 = (if new_count b > 0 then saveRecords e s1 else s1)
           in (\<lparr>deviceData = latestDeviceData s2, combinedData = combined_view b,
                newRecordsCount = new_count b,
                totalRecords = length (allAttendanceRecords s2)\<rparr>, s2)))"

text \<open>
  The older aggregator \<open>fetchAllDeviceData\<close> removes duplicate users with
  \<open>filter((user, index, self) => index === self.findIndex(u => u.userId === user.userId))\<close>.
\<close>

fun findIndex :: "('a \<Rightarrow> bool) \<Rightarrow> 'a list \<Rightarrow> nat option" where
  "findIndex P [] = None"
| "findIndex P (x # xs) = (if P x then Some 0 else map_option Suc (findIndex P xs))"

definition removeDuplicateUsers :: "jsobj list \<Rightarrow> jsobj list" where
  "removeDuplicateUsers self =
     map snd (filter (\<lambda>(index, user).
                 Some index = findIndex (\<lambda>u. get_prop u ''userId'' = get_prop user ''userId'') self)
               (zip [0..<length self] self))"

section \<open>The forwarder\<close>

definition convertToCSharpFormat :: "(string \<Rightarrow> int option) \<Rightarrow> jsobj list \<Rightarrow> csharp_record list" where
  "convertToCSharpFormat other logs =
     map (\<lambda>log.
       \<lparr>UserSN = (if truthy (get_prop log ''userSn'') then get_prop log ''userSn'' else Num 0),
        DeviceUserID =
          (case get_prop log ''deviceUserId'' of
             Undefined \<Rightarrow> [] | Null \<Rightarrow> [] | v \<Rightarrow> toString v),
        UserName = (if truthy (get_prop log ''name'') then get_prop log ''name'' else Str ''Unknown''),
        RecordTime = new_Date other (get_prop log ''recordTime''),
        DeviceIP = (if truthy (get_prop log ''deviceIP'') then get_prop log ''deviceIP'' else Str []),
        RecordType = (if truthy (get_prop log ''type'') then get_prop log ''type'' else Str ''UNKNOWN'')\<rparr>)
       logs"

record api_result =
  success :: bool
  api_message :: "string option"
  api_data :: "jsval option"
  api_error :: "jsval option"
  recordsSent :: "nat option"

definition sendToCSharpAPI ::
  "(string \<Rightarrow> int option) \<Rightarrow> env \<Rightarrow> jsobj list \<Rightarrow> state \<Rightarrow> api_result \<times> state" where
  "sendToCSharpAPI other e records s =
     (if records = [] then
        (\<lparr>success = False, api_message = Some ''No records to send'', api_data = None,
          api_error = None, recordsSent = None\<rparr>, s)
      else
        (let s1 = s\<lparr>effects := effects s @ [AxiosPost (convertToCSharpFormat other records)]\<rparr>
         in case post_outcome e of
              Inr response_data \<Rightarrow>
                (\<lparr>success = True, api_message = None, api_data = Some response_data,
                  api_error = None, recordsSent = Some (length records)\<rparr>, s1)
            | Inl err \<Rightarrow>
                (\<lparr>success = False, api_message = None, api_data = None,
                  api_error = Some (message err), recordsSent = Some 0\<rparr>, s1)))"

text \<open>\<open>xs.slice(-n)\<close> for \<open>n > 0\<close>: the last \<open>n\<close> elements, or all of them.\<close>

definition slice_last :: "nat \<Rightarrow> 'a list \<Rightarrow> 'a list" where
  "slice_last n xs = drop (length xs - n) xs"

record sync_result = cycle_result +
  apiSent :: bool

definition fetchAndSendToAPI ::
  "(string \<Rightarrow> int option) \<Rightarrow> env \<Rightarrow> state \<Rightarrow> sync_result \<times> state" where
  "fetchAndSendToAPI other e s =
     (case run_batch other e s of
        (s1, b) \<Rightarrow>
          (let s3 = (if new_count b > 0
                     then (let s2 = saveRecords e s1;
                               newRecords = slice_last (new_count b) (allAttendanceRecords s2)
                           in snd (sendToCSharpAPI other e newRecords s2))
                     else s1)
           in (\<lparr>deviceData = latestDeviceData s3, combinedData = combined_view b,
                newRecordsCount = new_count b,
                totalRecords = length (allAttendanceRecords s3),
                apiSent = (new_count b > 0)\<rparr>, s3)))"

section \<open>The file endpoints\<close>

fun str_includes :: "string \<Rightarrow> string \<Rightarrow> bool" where
  "str_includes [] pat = (pat = [])"
| "str_includes (c # cs) pat = (take (length pat) (c # cs) = pat \<or> str_includes cs pat)"

definition endsWith :: "string \<Rightarrow> string \<Rightarrow> bool" where
  "endsWith s suffix =
     (length suffix \<le> length s \<and> drop (length s - length suffix) s = suffix)"

text \<open>
  A response is a status and a body. \<open>SyntaxErrorBody\<close> is the body \<open>{error: m}\<close> with
  the engine's message \<open>m\<close> of the \<open>SyntaxError\<close> that \<open>JSON.parse\<close> throws. The file
  \<open>path.join(dataDir, filename)\<close> is the file of the data directory named \<open>filename\<close>.
\<close>

datatype body = ErrorBody string | SyntaxErrorBody | MessageBody string | ContentBody file_content

definition get_file :: "string \<Rightarrow> state \<Rightarrow> (nat \<times> body) \<times> state" where
  "get_file filename s =
     (if str_includes filename ''..'' \<or> \<not> endsWith filename ''.json''
      then ((400, ErrorBody ''Invalid filename''), s)
      else
        (let s1 = s\<lparr>effects := effects s @ [ExistsSync filename]\<rparr>
         in case map_of (files s) filename of
              None \<Rightarrow> ((404, ErrorBody ''File not found''), s1)
            | Some content \<Rightarrow>
                (let s2 = s1\<lparr>effects := effects s1 @ [ReadFileSync filename]\<rparr>
                 in case content of
                      NotJson \<Rightarrow> ((500, SyntaxErrorBody), s2)
                    | _ \<Rightarrow> ((200, ContentBody content), s2))))"

definition delete_file :: "string \<Rightarrow> state \<Rightarrow> (nat \<times> body) \<times> state" where
  "delete_file filename s =
     (if str_includes filename ''..'' \<or> \<not> endsWith filename ''.json''
      then ((400, ErrorBody ''Invalid filename''), s)
      else
        (let s1 = s\<lparr>effects := effects s @ [ExistsSync filename]\<rparr>
         in case map_of (files s) filename of
              None \<Rightarrow> ((404, ErrorBody ''File not found''), s1)
            | Some content \<Rightarrow>
                ((200, MessageBody ''File deleted successfully''),
                 s1\<lparr>files := AList.delete filename (files s),
                    effects := effects s1 @ [UnlinkSync filename]\<rparr>)))"

section \<open>Runs of the process\<close>

text \<open>
  What happens to the process, one event after the other: a load of the store, a cycle
  of the saving variant, a cycle of the forwarding variant. The engine is the same
  throughout a run.
\<close>

datatype event = Load env | Cycle env | Sync env

fun step :: "(string \<Rightarrow> int option) \<Rightarrow> state \<Rightarrow> event \<Rightarrow> state" where
  "step other s (Load e) = loadExistingRecords other e s"
| "step other s (Cycle e) = snd (fetchAndSaveNewRecords other e s)"
| "step other s (Sync e) = snd (fetchAndSendToAPI other e s)"

definition run :: "(string \<Rightarrow> int option) \<Rightarrow> event list \<Rightarrow> state \<Rightarrow> state" where
  "run other events s = foldl (step other) s events"

section \<open>Notions used by the properties\<close>

text \<open>
  The invariant of the deduplicator: the records have pairwise different signatures,
  and each of them is in the signature set.
\<close>

definition sig_inv :: "(string \<Rightarrow> int option) \<Rightarrow> jsobj list \<Rightarrow> string list \<Rightarrow> bool" where
  "sig_inv other records sigs =
     (distinct (map (createRecordSignature other) records)
      \<and> set (map (createRecordSignature other) records) \<subseteq> set sigs)"

text \<open>The logs and the users of the fulfilled results, in the order of the results.\<close>

definition logs_of_results :: "(string \<times> device_data settled) list \<Rightarrow> jsobj list" where
  "logs_of_results results =
     concat (map (\<lambda>(ip, r). case r of Fulfilled d \<Rightarrow> attendanceLogs d | Rejected _ \<Rightarrow> []) results)"

definition users_of_results :: "(string \<times> device_data settled) list \<Rightarrow> jsobj list" where
  "users_of_results results =
     concat (map (\<lambda>(ip, r). case r of Fulfilled d \<Rightarrow> allUsers d | Rejected _ \<Rightarrow> []) results)"

text \<open>The user lists of the terminals of one cycle, one after the other.\<close>

definition merged_users :: "(string \<Rightarrow> int option) \<Rightarrow> env \<Rightarrow> jsobj list" where
  "merged_users other e =
     concat (map (\<lambda>ip. allUsers (fst (fetchDeviceData other ip (terminal e ip)))) devices)"

definition user_map :: "(jsval \<times> jsobj) list \<Rightarrow> jsobj list \<Rightarrow> (jsval \<times> jsobj) list" where
  "user_map m users = foldl (\<lambda>m user. AList.update (get_prop user ''userId'') user m) m users"

text \<open>
  A bare day-stamped file name, as \<open>saveRecords\<close> composes it from the UTC day:
  \<open>attendance_YYYY-MM-DD.json\<close>.
\<close>

definition is_digit :: "char \<Rightarrow> bool" where
  "is_digit c = (digit_val c \<noteq> None)"

definition day_stamped :: "string \<Rightarrow> bool" where
  "day_stamped filename =
     (length filename = 26 \<and> take 11 filename = ''attendance_'' \<and> drop 21 filename = ''.json''
      \<and> list_all is_digit (take 4 (drop 11 filename)) \<and> filename ! 15 = CHR ''-''
      \<and> list_all is_digit (take 2 (drop 16 filename)) \<and> filename ! 18 = CHR ''-''
      \<and> list_all is_digit (take 2 (drop 19 filename)))"

section \<open>Concrete terminals and environments\<close>

text \<open>An engine that reads no date string outside the standard format.\<close>

definition no_other_dates :: "string \<Rightarrow> int option" where
  "no_other_dates s = None"

text \<open>A terminal that cannot be reached.\<close>

definition unreachable :: device where
  "unreachable =
     \<lparr>createSocket = Inl (JsError (Str ''connect ETIMEDOUT'')), getInfo = Inr None,
      getUsers = Inr None, getAttendances = Inr None, disconnect = Inr ()\<rparr>"

text \<open>A terminal that opens its session and then fails to deliver the user table.\<close>

definition failing_reader :: device where
  "failing_reader =
     \<lparr>createSocket = Inr (), getInfo = Inr None,
      getUsers = Inl (JsError (Str ''TIMEOUT_ON_RECEIVING_REQUEST_DATA'')),
      getAttendances = Inr None, disconnect = Inr ()\<rparr>"

text \<open>The terminal of the end-to-end scenario: one user, one log.\<close>

definition scenario_terminal :: device where
  "scenario_terminal =
     \<lparr>createSocket = Inr (), getInfo = Inr None,
      getUsers = Inr (Some [[(''userId'', Num 7), (''name'', Str ''Alice''), (''role'', Num 0)]]),
      getAttendances =
        Inr (Some [[(''deviceUserId'', Num 7), (''recordTime'', Str ''2024-01-01T08:00:00Z'')]]),
      disconnect = Inr ()\<rparr>"

text \<open>A terminal that knows the one user given.\<close>

definition terminal_with_user :: "jsobj \<Rightarrow> device" where
  "terminal_with_user u =
     \<lparr>createSocket = Inr (), getInfo = Inr None, getUsers = Inr (Some [u]),
      getAttendances = Inr None, disconnect = Inr ()\<rparr>"

definition user_X :: jsobj where
  "user_X = [(''userId'', Num 1), (''name'', Str ''X'')]"

definition user_Y :: jsobj where
  "user_Y = [(''userId'', Num 1), (''name'', Str ''Y'')]"

fun offline_terminals :: "string \<Rightarrow> device" where
  "offline_terminals ip = unreachable"

fun scenario_terminals :: "string \<Rightarrow> device" where
  "scenario_terminals ip = (if ip = ''192.168.18.253'' then scenario_terminal else unreachable)"

fun shared_user_terminals :: "string \<Rightarrow> device" where
  "shared_user_terminals ip =
     (if ip = ''192.168.18.253'' then terminal_with_user user_X else terminal_with_user user_Y)"

definition offline_env :: env where
  "offline_env =
     \<lparr>today = ''2024-01-01'', terminal = offline_terminals, write_fails = False,
      post_outcome = Inr Null\<rparr>"

definition scenario_env :: env where
  "scenario_env =
     \<lparr>today = ''2024-01-01'', terminal = scenario_terminals, write_fails = False,
      post_outcome = Inl (JsError (Str ''Request failed with status code 500''))\<rparr>"

definition shared_user_env :: env where
  "shared_user_env =
     \<lparr>today = ''2024-01-01'', terminal = shared_user_terminals, write_fails = False,
      post_outcome = Inr Null\<rparr>"

text \<open>A data directory that holds one file whose name carries no day.\<close>

definition notes_store :: state where
  "notes_store = initial_state [(''notes.json'', JsonArray [])]"

section \<open>The dedup loop\<close>

lemma checkNewRecords_append:
  "checkNewRecords other (xs @ ys) acc = checkNewRecords other ys (checkNewRecords other xs acc)"
proof (induction xs arbitrary: acc)
  case Nil
  show ?case by simp
next
  case (Cons x xs)
  obtain records sigs n where acc: "acc = (records, sigs, n)"
    by (cases acc) auto
  show ?case
    unfolding acc using Cons.IH by (simp add: Let_def)
qed

lemma checkNewRecords_inv:
  "sig_inv other records sigs \<Longrightarrow>
   checkNewRecords other logs (records, sigs, n) = (records', sigs', n') \<Longrightarrow>
   sig_inv other records' sigs'"
proof (induction logs arbitrary: records sigs n)
  case Nil
  then show ?case by simp
next
  case (Cons r logs)
  show ?case
  proof (cases "createRecordSignature other r \<in> set sigs")
    case True
    with Cons.prems(2) have "checkNewRecords other logs (records, sigs, n) = (records', sigs', n')"
      by simp
    with Cons.IH Cons.prems(1) show ?thesis by blast
  next
    case False
    with Cons.prems(2) have step:
      "checkNewRecords other logs (records @ [r], sigs @ [createRecordSignature other r], Suc n)
         = (records', sigs', n')"
      by (simp add: Let_def)
    have "sig_inv other (records @ [r]) (sigs @ [createRecordSignature other r])"
      using Cons.prems(1) False by (auto simp: sig_inv_def)
    with Cons.IH step show ?thesis by blast
  qed
qed

lemma checkNewRecords_sigs:
  "checkNewRecords other logs (records, sigs, n) = (records', sigs', n') \<Longrightarrow>
   set sigs' = set sigs \<union> createRecordSignature other ` set logs"
proof (induction logs arbitrary: records sigs n)
  case Nil
  then show ?case by simp
next
  case (Cons r logs)
  show ?case
  proof (cases "createRecordSignature other r \<in> set sigs")
    case True
    with Cons.prems have "checkNewRecords other logs (records, sigs, n) = (records', sigs', n')"
      by simp
    from Cons.IH [OF this] True show ?thesis by auto
  next
    case False
    with Cons.prems have
      "checkNewRecords other logs (records @ [r], sigs @ [createRecordSignature other r], Suc n)
         = (records', sigs', n')"
      by (simp add: Let_def)
    from Cons.IH [OF this] show ?thesis by auto
  qed
qed

lemma checkNewRecords_known:
  "createRecordSignature other ` set logs \<subseteq> set sigs \<Longrightarrow>
   checkNewRecords other logs (records, sigs, n) = (records, sigs, n)"
  by (induction logs) (simp_all add: Let_def)

lemma checkNewRecords_new:
  "checkNewRecords other logs (records, sigs, n) = (records', sigs', n') \<Longrightarrow>
   \<exists>new. records' = records @ new \<and> n' = n + length new \<and> set new \<subseteq> set logs"
proof (induction logs arbitrary: records sigs n)
  case Nil
  then show ?case by simp
next
  case (Cons r logs)
  show ?case
  proof (cases "createRecordSignature other r \<in> set sigs")
    case True
    with Cons.prems have "checkNewRecords other logs (records, sigs, n) = (records', sigs', n')"
      by simp
    from Cons.IH [OF this] show ?thesis by auto
  next
    case False
    with Cons.prems have
      "checkNewRecords other logs (records @ [r], sigs @ [createRecordSignature other r], Suc n)
         = (records', sigs', n')"
      by (simp add: Let_def)
    from Cons.IH [OF this] obtain new where
      "records' = (records @ [r]) @ new" "n' = Suc n + length new" "set new \<subseteq> set logs"
      by blast
    then have "records' = records @ (r # new) \<and> n' = n + length (r # new)
                 \<and> set (r # new) \<subseteq> set (r # logs)"
      by auto
    then show ?thesis by blast
  qed
qed

lemma eachResult_state:
  "eachResult other results (s, b) = (s', b') \<Longrightarrow>
   checkNewRecords other (logs_of_results results)
       (allAttendanceRecords s, uniqueSignatures s, new_count b)
     = (allAttendanceRecords s', uniqueSignatures s', new_count b')
   \<and> files s' = files s \<and> effects s' = effects s \<and> latestDeviceData s' = latestDeviceData s
   \<and> combinedLogs b' = combinedLogs b @ logs_of_results results
   \<and> combinedAllUsers b' = combinedAllUsers b @ users_of_results results"
proof (induction other results "(s, b)" arbitrary: s b rule: eachResult.induct)
  case (1 other sb)
  then show ?case by (simp add: logs_of_results_def users_of_results_def)
next
  case (2 other ip deviceData results s b)
  obtain records sigs n where c:
    "checkNewRecords other (attendanceLogs deviceData)
       (allAttendanceRecords s, uniqueSignatures s, new_count b) = (records, sigs, n)"
    by (metis prod_cases3)
  from "2.prems" c have run:
    "eachResult other results
       (s\<lparr>allAttendanceRecords := records, uniqueSignatures := sigs\<rparr>,
        b\<lparr>currentBatchData := AList.update ip deviceData (currentBatchData b),
          combinedLogs := combinedLogs b @ attendanceLogs deviceData,
          combinedAllUsers := combinedAllUsers b @ allUsers deviceData,
          combinedAdminUsers := combinedAdminUsers b @ adminUsers deviceData,
          new_count := n\<rparr>) = (s', b')"
    by simp
  have split: "logs_of_results ((ip, Fulfilled deviceData) # results)
                 = attendanceLogs deviceData @ logs_of_results results"
       "users_of_results ((ip, Fulfilled deviceData) # results)
                 = allUsers deviceData @ users_of_results results"
    by (simp_all add: logs_of_results_def users_of_results_def)
  from "2.hyps" [OF c [symmetric] refl run] show ?case
    unfolding split checkNewRecords_append c by simp
next
  case (3 other ip reason results s b)
  from "3.prems" have run:
    "eachResult other results
       (s, b\<lparr>currentBatchData := AList.update ip (offline ip reason) (currentBatchData b)\<rparr>)
      = (s', b')"
    by simp
  have split: "logs_of_results ((ip, Rejected reason) # results) = logs_of_results results"
       "users_of_results ((ip, Rejected reason) # results) = users_of_results results"
    by (simp_all add: logs_of_results_def users_of_results_def)
  from "3.hyps" [OF run] show ?case
    unfolding split by simp
qed

lemma load_items_inv:
  "load_items other items (records, sigs) = Some (records', sigs') \<Longrightarrow>
   sig_inv other records sigs \<Longrightarrow> sig_inv other records' sigs'"
proof (induction other items "(records, sigs)" arbitrary: records sigs rule: load_items.induct)
  case (1 other)
  then show ?case by simp
next
  case (2 other items)
  then show ?case by simp
next
  case (3 other items)
  then show ?case by simp
next
  case (4 other item items records sigs)
  show ?case
  proof (cases "truthy (get_prop item ''deviceUserId'') \<and> truthy (get_prop item ''recordTime'')")
    case False
    with "4.prems" "4.hyps"(3) show ?thesis by auto
  next
    case True
    show ?thesis
    proof (cases "createRecordSignature other item \<in> set sigs")
      case known: True
      with True "4.prems" "4.hyps"(1) show ?thesis by (auto simp: Let_def)
    next
      case new: False
      have "sig_inv other (records @ [item]) (sigs @ [createRecordSignature other item])"
        using "4.prems"(2) new by (auto simp: sig_inv_def)
      with True new "4.prems"(1) "4.hyps"(2) show ?thesis by (auto simp: Let_def)
    qed
  qed
qed

lemma loadExistingRecords_inv:
  "sig_inv other (allAttendanceRecords (loadExistingRecords other e s))
     (uniqueSignatures (loadExistingRecords other e s))"
proof -
  have empty: "sig_inv other [] []" by (simp add: sig_inv_def)
  show ?thesis
    using load_items_inv [OF _ empty]
    by (auto simp: loadExistingRecords_def Let_def empty
             split: option.splits file_content.splits prod.splits)
qed

lemma saveRecords_frame:
  "allAttendanceRecords (saveRecords e s) = allAttendanceRecords s"
  "uniqueSignatures (saveRecords e s) = uniqueSignatures s"
  by (simp_all add: saveRecords_def Let_def)

lemma sendToCSharpAPI_frame:
  "allAttendanceRecords (snd (sendToCSharpAPI other e records s)) = allAttendanceRecords s"
  "uniqueSignatures (snd (sendToCSharpAPI other e records s)) = uniqueSignatures s"
  "files (snd (sendToCSharpAPI other e records s)) = files s"
  by (simp_all add: sendToCSharpAPI_def Let_def split: sum.splits)

lemma run_batch_state:
  assumes "run_batch other e s = (s1, b)"
  shows "checkNewRecords other (logs_of_results (settle_all other e))
           (allAttendanceRecords s, uniqueSignatures s, 0)
         = (allAttendanceRecords s1, uniqueSignatures s1, new_count b)"
    and "files s1 = files s" and "effects s1 = effects s"
    and "combinedAllUsers b = users_of_results (settle_all other e)"
proof -
  obtain s0 where run: "eachResult other (settle_all other e) (s, empty_batch) = (s0, b)"
    and s1: "s1 = s0\<lparr>latestDeviceData :=
                      AList.update ''combined'' (combined_view b) (currentBatchData b)\<rparr>"
    using assms by (auto simp: run_batch_def split: prod.splits)
  from eachResult_state [OF run] s1
  show "checkNewRecords other (logs_of_results (settle_all other e))
           (allAttendanceRecords s, uniqueSignatures s, 0)
         = (allAttendanceRecords s1, uniqueSignatures s1, new_count b)"
    and "files s1 = files s" and "effects s1 = effects s"
    and "combinedAllUsers b = users_of_results (settle_all other e)"
    by (simp_all add: empty_batch_def)
qed

lemma fetchAndSaveNewRecords_inv:
  assumes "sig_inv other (allAttendanceRecords s) (uniqueSignatures s)"
  shows "sig_inv other (allAttendanceRecords (snd (fetchAndSaveNewRecords other e s)))
           (uniqueSignatures (snd (fetchAndSaveNewRecords other e s)))"
proof -
  obtain s1 b where rb: "run_batch other e s = (s1, b)" by (cases "run_batch other e s")
  from checkNewRecords_inv [OF assms run_batch_state(1) [OF rb]]
  have "sig_inv other (allAttendanceRecords s1) (uniqueSignatures s1)" .
  then show ?thesis
    by (simp add: fetchAndSaveNewRecords_def rb Let_def saveRecords_frame)
qed

lemma fetchAndSendToAPI_inv:
  assumes "sig_inv other (allAttendanceRecords s) (uniqueSignatures s)"
  shows "sig_inv other (allAttendanceRecords (snd (fetchAndSendToAPI other e s)))
           (uniqueSignatures (snd (fetchAndSendToAPI other e s)))"
proof -
  obtain s1 b where rb: "run_batch other e s = (s1, b)" by (cases "run_batch other e s")
  from checkNewRecords_inv [OF assms run_batch_state(1) [OF rb]]
  have "sig_inv other (allAttendanceRecords s1) (uniqueSignatures s1)" .
  then show ?thesis
    by (simp add: fetchAndSendToAPI_def rb Let_def saveRecords_frame sendToCSharpAPI_frame)
qed

lemma step_inv:
  "sig_inv other (allAttendanceRecords s) (uniqueSignatures s) \<Longrightarrow>
   sig_inv other (allAttendanceRecords (step other s ev)) (uniqueSignatures (step other s ev))"
  by (cases ev) (simp_all add: loadExistingRecords_inv fetchAndSaveNewRecords_inv fetchAndSendToAPI_inv)

lemma run_inv:
  "sig_inv other (allAttendanceRecords s) (uniqueSignatures s) \<Longrightarrow>
   sig_inv other (allAttendanceRecords (run other events s)) (uniqueSignatures (run other events s))"
  unfolding run_def
  by (induction events arbitrary: s) (simp_all add: step_inv)

lemma second_batch_finds_nothing:
  assumes first: "run_batch other e s = (s1, b1)"
    and kept: "allAttendanceRecords s2 = allAttendanceRecords s1"
              "uniqueSignatures s2 = uniqueSignatures s1"
    and second: "run_batch other e s2 = (s3, b3)"
  shows "new_count b3 = 0"
proof -
  let ?logs = "logs_of_results (settle_all other e)"
  from checkNewRecords_sigs [OF run_batch_state(1) [OF first]]
  have "createRecordSignature other ` set ?logs \<subseteq> set (uniqueSignatures s2)"
    using kept by auto
  from checkNewRecords_known [OF this] run_batch_state(1) [OF second]
  show ?thesis by simp
qed

section \<open>Deduplicating users\<close>

lemma users_of_settle_all: "users_of_results (settle_all other e) = merged_users other e"
  by (simp add: users_of_results_def settle_all_def merged_users_def devices_def)

lemma find_rev_last:
  "List.find P (rev xs) = (if filter P xs = [] then None else Some (last (filter P xs)))"
  by (induction xs rule: rev_induct) simp_all

lemma user_map_snoc:
  "user_map m (users @ [u]) = AList.update (get_prop u ''userId'') u (user_map m users)"
  by (simp add: user_map_def)

lemma user_map_distinct: "distinct (map fst m) \<Longrightarrow> distinct (map fst (user_map m users))"
  by (induction users rule: rev_induct) (simp_all add: user_map_snoc distinct_update, simp add: user_map_def)

lemma user_map_keys:
  "fst ` set (user_map m users) = fst ` set m \<union> (\<lambda>u. get_prop u ''userId'') ` set users"
  by (induction users rule: rev_induct) (simp add: user_map_def, auto simp: user_map_snoc dom_update)

lemma user_map_lookup:
  "map_of (user_map m users) k =
     (case List.find (\<lambda>u. get_prop u ''userId'' = k) (rev users) of
        Some u \<Rightarrow> Some u | None \<Rightarrow> map_of m k)"
  by (induction users rule: rev_induct) (simp add: user_map_def, simp add: user_map_snoc update_conv')

lemma user_map_values:
  "\<forall>p \<in> set m. get_prop (snd p) ''userId'' = fst p \<Longrightarrow>
   \<forall>p \<in> set (user_map m users). get_prop (snd p) ''userId'' = fst p"
proof (induction users rule: rev_induct)
  case Nil
  then show ?case by (simp add: user_map_def)
next
  case (snoc u users)
  have "set (AList.update k v al) \<subseteq> insert (k, v) (set al)" for k :: jsval and v :: jsobj and al
    by (induction al) auto
  with snoc show ?case
    unfolding user_map_snoc by fastforce
qed

lemma filter_key_distinct:
  "distinct (map fst m) \<Longrightarrow>
   filter (\<lambda>p. fst p = k) m = (case map_of m k of None \<Rightarrow> [] | Some v \<Rightarrow> [(k, v)])"
proof (induction m)
  case Nil
  then show ?case by simp
next
  case (Cons p m)
  obtain k' v' where p: "p = (k', v')" by (cases p)
  show ?case
  proof (cases "k' = k")
    case True
    with Cons.prems p have "k \<notin> fst ` set m" by auto
    then have "filter (\<lambda>p. fst p = k) m = []"
      by (auto simp: filter_empty_conv)
    with True p show ?thesis by simp
  next
    case False
    with Cons p show ?thesis by simp
  qed
qed

lemma uniqueByUserId_entry:
  "filter (\<lambda>v. get_prop v ''userId'' = k) (uniqueByUserId users) =
     (if filter (\<lambda>v. get_prop v ''userId'' = k) users = [] then []
      else [last (filter (\<lambda>v. get_prop v ''userId'' = k) users)])"
proof -
  let ?m = "user_map [] users"
  have vals: "\<forall>p \<in> set ?m. get_prop (snd p) ''userId'' = fst p"
    by (rule user_map_values) simp
  have dist: "distinct (map fst ?m)"
    by (rule user_map_distinct) simp
  have "filter (\<lambda>v. get_prop v ''userId'' = k) (map snd ?m)
          = map snd (filter (\<lambda>p. get_prop (snd p) ''userId'' = k) ?m)"
    by (simp add: filter_map comp_def)
  also have "filter (\<lambda>p. get_prop (snd p) ''userId'' = k) ?m = filter (\<lambda>p. fst p = k) ?m"
    using vals by (intro filter_cong) auto
  also have "\<dots> = (case map_of ?m k of None \<Rightarrow> [] | Some v \<Rightarrow> [(k, v)])"
    by (rule filter_key_distinct [OF dist])
  finally show ?thesis
    by (simp add: uniqueByUserId_def user_map_def [symmetric] user_map_lookup find_rev_last)
qed

lemma uniqueByUserId_length:
  "length (uniqueByUserId users) = card ((\<lambda>u. get_prop u ''userId'') ` set users)"
proof -
  have "length (uniqueByUserId users) = length (map fst (user_map [] users))"
    by (simp add: uniqueByUserId_def user_map_def)
  also have "\<dots> = card (set (map fst (user_map [] users)))"
    by (rule distinct_card [symmetric]) (rule user_map_distinct, simp)
  also have "set (map fst (user_map [] users)) = (\<lambda>u. get_prop u ''userId'') ` set users"
    using user_map_keys [of "[]" users] by simp
  finally show ?thesis .
qed

lemma findIndex_None: "findIndex P xs = None \<longleftrightarrow> filter P xs = []"
  by (induction xs) auto

lemma findIndex_Some:
  "findIndex P xs = Some i \<Longrightarrow> i < length xs \<and> hd (filter P xs) = xs ! i \<and> P (xs ! i)"
proof (induction xs arbitrary: i)
  case Nil
  then show ?case by simp
next
  case (Cons x xs)
  show ?case
  proof (cases "P x")
    case True
    with Cons.prems show ?thesis by simp
  next
    case False
    with Cons.prems obtain j where j: "findIndex P xs = Some j" "i = Suc j"
      by auto
    from Cons.IH [OF j(1)] j(2) False show ?thesis by simp
  qed
qed

lemma pick_index:
  "map snd (filter (\<lambda>p. fst p = j \<and> P (snd p)) (List.enumerate m xs)) =
     (if m \<le> j \<and> j < m + length xs \<and> P (xs ! (j - m)) then [xs ! (j - m)] else [])"
proof (induction xs arbitrary: m)
  case Nil
  then show ?case by simp
next
  case (Cons x xs)
  show ?case
    using Cons.IH [of "Suc m"]
    by (auto simp: nth_Cons' Suc_diff_le)
qed

lemma removeDuplicateUsers_unfold:
  "filter (\<lambda>v. get_prop v ''userId'' = k) (removeDuplicateUsers users)
      = map snd (filter (\<lambda>p. get_prop (snd p) ''userId'' = k)
          (filter (\<lambda>p. Some (fst p) = findIndex (\<lambda>u. get_prop u ''userId'' = get_prop (snd p) ''userId'') users)
             (List.enumerate 0 users)))"
    unfolding removeDuplicateUsers_def enumerate_eq_zip filter_map
    by (simp add: comp_def case_prod_unfold)

lemma removeDuplicateUsers_index:
  "map snd (filter (\<lambda>p. get_prop (snd p) ''userId'' = k)
          (filter (\<lambda>p. Some (fst p) = findIndex (\<lambda>u. get_prop u ''userId'' = get_prop (snd p) ''userId'') users)
             (List.enumerate 0 users)))
   = map snd (filter (\<lambda>p. (Some (fst p) = findIndex (\<lambda>v. get_prop v ''userId'' = k) users) \<and> get_prop (snd p) ''userId'' = k) (List.enumerate 0 users))"
    unfolding filter_filter
    by (rule arg_cong [where f = "map snd"], rule filter_cong) auto

lemma removeDuplicateUsers_entry:
  "filter (\<lambda>v. get_prop v ''userId'' = k) (removeDuplicateUsers users) =
     (if filter (\<lambda>v. get_prop v ''userId'' = k) users = [] then []
      else [hd (filter (\<lambda>v. get_prop v ''userId'' = k) users)])"
proof -
  let ?P = "\<lambda>v. get_prop v ''userId'' = k"
  have eq: "filter ?P (removeDuplicateUsers users)
      = map snd (filter (\<lambda>p. (Some (fst p) = findIndex ?P users) \<and> ?P (snd p)) (List.enumerate 0 users))"
    by (simp only: removeDuplicateUsers_unfold removeDuplicateUsers_index)
  show ?thesis
  proof (cases "findIndex ?P users")
    case None
    then have empty: "filter ?P users = []" by (simp only: findIndex_None)
    have "filter ?P (removeDuplicateUsers users) = []"
      unfolding eq None by simp
    with empty show ?thesis by simp
  next
    case (Some i)
    from findIndex_Some [OF Some] have i: "i < length users" "?P (users ! i)"
      and hd: "hd (filter ?P users) = users ! i"
      by blast+
    from i have "users ! i \<in> set (filter ?P users)"
      by simp
    then have ne: "filter ?P users \<noteq> []"
      by (metis empty_iff empty_set)
    have "filter ?P (removeDuplicateUsers users)
        = map snd (filter (\<lambda>p. fst p = i \<and> ?P (snd p)) (List.enumerate 0 users))"
      unfolding eq Some by simp
    also have "\<dots> = [users ! i]"
      using pick_index [of i ?P 0 users] i by simp
    finally show ?thesis
      using ne by (simp add: hd)
  qed
qed

section \<open>Evaluating the concrete terminals\<close>

lemma nat_to_string_digit: "n < 10 \<Longrightarrow> nat_to_string n = [digit_char n]"
  by (subst nat_to_string.simps) simp

lemma nat_to_string_more:
  "10 \<le> n \<Longrightarrow> nat_to_string n = nat_to_string (n div 10) @ [digit_char (n mod 10)]"
  by (subst nat_to_string.simps) simp

lemmas eval_number = nat_to_string_digit nat_to_string_more digit_char_def int_to_string_def

lemma parse_scenario_time: "parse_utc ''2024-01-01T08:00:00Z'' = Some 1704096000000"
  by (simp add: parse_utc_def number_at_def digit_val_def days_in_month_def days_from_civil_def)

lemma parse_iso_scenario_time: "parse_utc ''2024-01-01T08:00:00.000Z'' = Some 1704096000000"
  by (simp add: parse_utc_def number_at_def digit_val_def days_in_month_def days_from_civil_def)

lemma scenario_day: "civil_from_days 19723 = (2024, 1, 1)"
  by code_simp

lemma scenario_pads:
  "pad 4 2024 = ''2024''" "pad 2 (Suc 0) = ''01''" "pad 3 0 = ''000''" "pad 2 8 = ''08''"
  "pad 2 0 = ''00''"
  by code_simp+

lemma iso_scenario_time: "toISOString (Some 1704096000000) = Inr ''2024-01-01T08:00:00.000Z''"
  by (simp add: toISOString_def scenario_day iso_year_def scenario_pads)

lemma fetch_unreachable:
  "fetchDeviceData other ip unreachable = (offline ip (JsError (Str ''connect ETIMEDOUT'')), [CreateSocket])"
  by (simp add: fetchDeviceData_def unreachable_def)

lemma fetch_failing_reader:
  "fetchDeviceData other ip failing_reader =
     (offline ip (JsError (Str ''TIMEOUT_ON_RECEIVING_REQUEST_DATA'')), [CreateSocket, GetInfo, GetUsers])"
  by (simp add: fetchDeviceData_def failing_reader_def)

lemma fetch_terminal_with_user:
  "fetchDeviceData other ip (terminal_with_user u) =
     (\<lparr>info = [], allUsers = [u], adminUsers = filter (\<lambda>u. get_prop u ''role'' = Num 14) [u],
       attendanceLogs = [], deviceIP = ip, status = ''online'', error = None\<rparr>,
      [CreateSocket, GetInfo, GetUsers, GetAttendances, Disconnect])"
  by (simp add: fetchDeviceData_def terminal_with_user_def)

lemma enhance_scenario:
  "enhance other ip (userMap_of [[(''userId'', Num 7), (''name'', Str ''Alice''), (''role'', Num 0)]])
     [(''deviceUserId'', Num 7), (''recordTime'', Str ''2024-01-01T08:00:00Z'')] =
   Inr [(''deviceUserId'', Num 7), (''recordTime'', Str ''2024-01-01T08:00:00.000Z''),
        (''name'', Str ''Alice''), (''type'', Str (if ip = ''192.168.18.253'' then ''IN'' else ''OUT'')),
        (''deviceIP'', Str ip)]"
  by (simp add: enhance_def userMap_of_def get_prop_def eval_number Date_parse_def
        parse_scenario_time iso_scenario_time)

lemma fetch_scenario:
  "fetchDeviceData other ip scenario_terminal =
     (\<lparr>info = [], allUsers = [[(''userId'', Num 7), (''name'', Str ''Alice''), (''role'', Num 0)]],
       adminUsers = [],
       attendanceLogs =
         [[(''deviceUserId'', Num 7), (''recordTime'', Str ''2024-01-01T08:00:00.000Z''),
           (''name'', Str ''Alice''),
           (''type'', Str (if ip = ''192.168.18.253'' then ''IN'' else ''OUT'')),
           (''deviceIP'', Str ip)]],
       deviceIP = ip, status = ''online'', error = None\<rparr>,
      [CreateSocket, GetInfo, GetUsers, GetAttendances, Disconnect])"
  by (simp add: fetchDeviceData_def scenario_terminal_def enhance_scenario get_prop_def)

lemma scenario_signature:
  "createRecordSignature other
     [(''deviceUserId'', Num 7), (''recordTime'', Str ''2024-01-01T08:00:00.000Z''),
      (''name'', Str ''Alice''), (''type'', Str ''IN''), (''deviceIP'', Str ''192.168.18.253'')]
   = ''192.168.18.253_7_1704096000000''"
  by (simp add: createRecordSignature_def get_prop_def Date_parse_def parse_iso_scenario_time
        time_to_string_def eval_number)

lemma merged_users_shared: "merged_users other shared_user_env = [user_X, user_Y]"
  by (simp add: merged_users_def devices_def shared_user_env_def fetch_terminal_with_user)

lemma run_batch_offline:
  "run_batch other offline_env s =
     (s\<lparr>latestDeviceData :=
          [(''192.168.18.253'', offline ''192.168.18.253'' (JsError (Str ''connect ETIMEDOUT''))),
           (''192.168.18.252'', offline ''192.168.18.252'' (JsError (Str ''connect ETIMEDOUT''))),
           (''combined'', combined_view empty_batch)]\<rparr>,
      empty_batch\<lparr>currentBatchData :=
          [(''192.168.18.253'', offline ''192.168.18.253'' (JsError (Str ''connect ETIMEDOUT''))),
           (''192.168.18.252'', offline ''192.168.18.252'' (JsError (Str ''connect ETIMEDOUT'')))]\<rparr>)"
  by (simp add: run_batch_def settle_all_def devices_def offline_env_def fetch_unreachable
        offline_def empty_batch_def combined_view_def)

lemma run_batch_scenario:
  "run_batch other scenario_env (initial_state fs) =
     ((initial_state fs)
        \<lparr>allAttendanceRecords :=
           [[(''deviceUserId'', Num 7), (''recordTime'', Str ''2024-01-01T08:00:00.000Z''),
             (''name'', Str ''Alice''), (''type'', Str ''IN''), (''deviceIP'', Str ''192.168.18.253'')]],
         uniqueSignatures := [''192.168.18.253_7_1704096000000''],
         latestDeviceData :=
           [(''192.168.18.253'', fst (fetchDeviceData other ''192.168.18.253'' scenario_terminal)),
            (''192.168.18.252'', offline ''192.168.18.252'' (JsError (Str ''connect ETIMEDOUT''))),
            (''combined'',
             \<lparr>info = [(''type'', Str ''Combined View''), (''userCounts'', Num 1), (''logCount'', Num 1)],
              allUsers = [[(''userId'', Num 7), (''name'', Str ''Alice''), (''role'', Num 0)]],
              adminUsers = [],
              attendanceLogs =
                [[(''deviceUserId'', Num 7), (''recordTime'', Str ''2024-01-01T08:00:00.000Z''),
                  (''name'', Str ''Alice''), (''type'', Str ''IN''),
                  (''deviceIP'', Str ''192.168.18.253'')]],
              deviceIP = ''Multiple Devices'', status = ''online'', error = None\<rparr>)]\<rparr>,
      \<lparr>currentBatchData =
           [(''192.168.18.253'', fst (fetchDeviceData other ''192.168.18.253'' scenario_terminal)),
            (''192.168.18.252'', offline ''192.168.18.252'' (JsError (Str ''connect ETIMEDOUT'')))],
       combinedLogs =
           [[(''deviceUserId'', Num 7), (''recordTime'', Str ''2024-01-01T08:00:00.000Z''),
             (''name'', Str ''Alice''), (''type'', Str ''IN''), (''deviceIP'', Str ''192.168.18.253'')]],
       combinedAllUsers = [[(''userId'', Num 7), (''name'', Str ''Alice''), (''role'', Num 0)]],
       combinedAdminUsers = [],
       new_count = 1\<rparr>)"
  by (simp add: run_batch_def settle_all_def devices_def scenario_env_def fetch_unreachable
        fetch_scenario offline_def empty_batch_def combined_view_def initial_state_def
        scenario_signature uniqueByUserId_def)

section \<open>Facts about a cycle\<close>

lemma combined_users_of_cycle:
  "allUsers (combinedData (fst (fetchAndSaveNewRecords other e s))) = uniqueByUserId (merged_users other e)"
  "get_prop (info (combinedData (fst (fetchAndSaveNewRecords other e s)))) ''userCounts''
     = Num (int (length (merged_users other e)))"
proof -
  obtain s1 b where rb: "run_batch other e s = (s1, b)" by (cases "run_batch other e s")
  from run_batch_state(4) [OF rb] have "combinedAllUsers b = merged_users other e"
    by (simp add: users_of_settle_all)
  then show
    "allUsers (combinedData (fst (fetchAndSaveNewRecords other e s))) = uniqueByUserId (merged_users other e)"
    "get_prop (info (combinedData (fst (fetchAndSaveNewRecords other e s)))) ''userCounts''
       = Num (int (length (merged_users other e)))"
    by (simp_all add: fetchAndSaveNewRecords_def rb Let_def combined_view_def get_prop_def)
qed

lemma run_batch_post_outcome:
  "run_batch other (e\<lparr>post_outcome := p\<rparr>) s = run_batch other e s"
  by (simp add: run_batch_def settle_all_def)

lemma saveRecords_post_outcome:
  "saveRecords (e\<lparr>post_outcome := p\<rparr>) s = saveRecords e s"
  by (simp add: saveRecords_def)

lemma sendToCSharpAPI_state:
  "records \<noteq> [] \<Longrightarrow>
   snd (sendToCSharpAPI other e records s)
     = s\<lparr>effects := effects s @ [AxiosPost (convertToCSharpFormat other records)]\<rparr>"
  by (simp add: sendToCSharpAPI_def Let_def split: sum.splits)

lemma fetchAndSendToAPI_new:
  assumes "run_batch other e s = (s1, b)" and "0 < new_count b"
  shows "fetchAndSendToAPI other e s =
     (\<lparr>deviceData = latestDeviceData s1, combinedData = combined_view b,
       newRecordsCount = new_count b, totalRecords = length (allAttendanceRecords s1),
       apiSent = True\<rparr>,
      snd (sendToCSharpAPI other e (slice_last (new_count b) (allAttendanceRecords s1))
             (saveRecords e s1)))"
  using assms
  by (simp add: fetchAndSendToAPI_def Let_def saveRecords_frame sendToCSharpAPI_def saveRecords_def
        split: sum.splits)

lemma run_batch_terminal:
  "run_batch other (e\<lparr>today := d, write_fails := w, post_outcome := p\<rparr>) s = run_batch other e s"
  "run_batch other (e\<lparr>today := d, write_fails := w\<rparr>) s = run_batch other e s"
  by (simp_all add: run_batch_def settle_all_def)

text \<open>When \<open>fetchDeviceData\<close> calls \<open>disconnect\<close>: after every other step has succeeded.\<close>

lemma disconnect_called_iff:
  "Disconnect \<in> set (snd (fetchDeviceData other ip d)) \<longleftrightarrow>
     (\<exists>u i users logs enhanced.
        createSocket d = Inr u \<and> getInfo d = Inr i \<and> getUsers d = Inr users
        \<and> getAttendances d = Inr logs
        \<and> enhanceLogs other ip (userMap_of (case users of None \<Rightarrow> [] | Some us \<Rightarrow> us))
              (case logs of None \<Rightarrow> [] | Some ls \<Rightarrow> ls) = Inr enhanced)"
  by (auto simp: fetchDeviceData_def Let_def split: sum.splits)

section \<open>The properties\<close>

subsection \<open>C1: signatures are unique in the store\<close>

text \<open>
  C1. Whatever loads of the store and cycles (of either variant) the process goes
  through from its start, no two records of \<open>allAttendanceRecords\<close>, the list that
  \<open>saveRecords\<close> persists, have the same signature.
\<close>

theorem store_signatures_unique:
  "distinct (map (createRecordSignature other)
      (allAttendanceRecords (run other events (initial_state fs))))"
proof -
  have "sig_inv other (allAttendanceRecords (initial_state fs)) (uniqueSignatures (initial_state fs))"
    by (simp add: initial_state_def sig_inv_def)
  from run_inv [OF this] show ?thesis
    by (simp add: sig_inv_def)
qed

subsection \<open>C2: one user per \<open>userId\<close> in the combined list\<close>

text \<open>
  C2, counterexample. The older aggregator \<open>fetchAllDeviceData\<close> keeps the first of two
  users with the same \<open>userId\<close>, not the later one.
\<close>

theorem first_occurrence_kept_by_filter:
  "removeDuplicateUsers [user_X, user_Y] = [user_X] \<and> removeDuplicateUsers [user_X, user_Y] \<noteq> [user_Y]"
  by (simp add: removeDuplicateUsers_def user_X_def user_Y_def get_prop_def upt_rec)

text \<open>
  C2, amended. For a user \<open>u\<close> of the merged per-device lists, the combined list of a
  cycle holds exactly one entry with the \<open>userId\<close> of \<open>u\<close>, the last one of the merged
  lists; the list of the older aggregator holds exactly one too, the first one.
\<close>

theorem combined_users_one_entry_per_userId:
  assumes "u \<in> set (merged_users other e)"
  shows "filter (\<lambda>v. get_prop v ''userId'' = get_prop u ''userId'')
           (allUsers (combinedData (fst (fetchAndSaveNewRecords other e s))))
         = [last (filter (\<lambda>v. get_prop v ''userId'' = get_prop u ''userId'') (merged_users other e))]
       \<and> filter (\<lambda>v. get_prop v ''userId'' = get_prop u ''userId'')
           (removeDuplicateUsers (merged_users other e))
         = [hd (filter (\<lambda>v. get_prop v ''userId'' = get_prop u ''userId'') (merged_users other e))]"
proof -
  from assms have "filter (\<lambda>v. get_prop v ''userId'' = get_prop u ''userId'') (merged_users other e) \<noteq> []"
    by (auto simp: filter_empty_conv)
  then show ?thesis
    by (simp add: combined_users_of_cycle(1) uniqueByUserId_entry removeDuplicateUsers_entry)
qed

text \<open>
  The amended C2 at two terminals that know user 1 as \<open>X\<close> and as \<open>Y\<close>.
\<close>

theorem combined_users_one_entry_per_userId_witness:
  "user_Y \<in> set (merged_users no_other_dates shared_user_env)
   \<and> filter (\<lambda>v. get_prop v ''userId'' = get_prop user_Y ''userId'')
        (allUsers (combinedData (fst (fetchAndSaveNewRecords no_other_dates shared_user_env (initial_state [])))))
      = [user_Y]
   \<and> filter (\<lambda>v. get_prop v ''userId'' = get_prop user_Y ''userId'')
        (removeDuplicateUsers (merged_users no_other_dates shared_user_env))
      = [user_X]"
proof -
  have h: "user_Y \<in> set (merged_users no_other_dates shared_user_env)"
    by (simp add: merged_users_shared)
  have same: "get_prop user_X ''userId'' = get_prop user_Y ''userId''"
    by (simp add: user_X_def user_Y_def get_prop_def)
  from combined_users_one_entry_per_userId [OF h, of "initial_state []"] h show ?thesis
    by (simp add: merged_users_shared same)
qed

subsection \<open>C3: the end-to-end scenario\<close>

text \<open>
  C3, counterexample. Fetched from terminal \<open>10.0.0.1\<close>, the log of the scenario is
  enriched with the type \<open>OUT\<close>, and its record time carries milliseconds.
\<close>

theorem scenario_record_is_OUT_with_milliseconds:
  "attendanceLogs (fst (fetchDeviceData no_other_dates ''10.0.0.1'' scenario_terminal))
     = [[(''deviceUserId'', Num 7), (''recordTime'', Str ''2024-01-01T08:00:00.000Z''),
         (''name'', Str ''Alice''), (''type'', Str ''OUT''), (''deviceIP'', Str ''10.0.0.1'')]]
   \<and> Str ''OUT'' \<noteq> Str ''IN''
   \<and> Str ''2024-01-01T08:00:00.000Z'' \<noteq> Str ''2024-01-01T08:00:00Z''"
  by (simp add: fetch_scenario)

text \<open>
  C3, amended. Terminal \<open>10.0.0.1\<close> gives the record the type \<open>OUT\<close> and the record
  time \<open>2024-01-01T08:00:00.000Z\<close>. When the terminal of the scenario is
  \<open>192.168.18.253\<close>, the other one being unreachable, a cycle from the initial state
  produces the record with type \<open>IN\<close>, that address and that record time, accepts it,
  and counts one new record.
\<close>

theorem scenario_cycle:
  "attendanceLogs (fst (fetchDeviceData other ''10.0.0.1'' scenario_terminal))
     = [[(''deviceUserId'', Num 7), (''recordTime'', Str ''2024-01-01T08:00:00.000Z''),
         (''name'', Str ''Alice''), (''type'', Str ''OUT''), (''deviceIP'', Str ''10.0.0.1'')]]
   \<and> attendanceLogs (combinedData (fst (fetchAndSaveNewRecords other scenario_env (initial_state fs))))
     = [[(''deviceUserId'', Num 7), (''recordTime'', Str ''2024-01-01T08:00:00.000Z''),
         (''name'', Str ''Alice''), (''type'', Str ''IN''), (''deviceIP'', Str ''192.168.18.253'')]]
   \<and> allAttendanceRecords (snd (fetchAndSaveNewRecords other scenario_env (initial_state fs)))
     = [[(''deviceUserId'', Num 7), (''recordTime'', Str ''2024-01-01T08:00:00.000Z''),
         (''name'', Str ''Alice''), (''type'', Str ''IN''), (''deviceIP'', Str ''192.168.18.253'')]]
   \<and> newRecordsCount (fst (fetchAndSaveNewRecords other scenario_env (initial_state fs))) = 1"
  by (simp add: fetch_scenario fetchAndSaveNewRecords_def run_batch_scenario combined_view_def
        saveRecords_frame Let_def)

subsection \<open>C4: a second cycle finds nothing new\<close>

text \<open>
  C4. From any state, a cycle that follows a cycle in which the terminals behaved the
  same way counts no new record, in either variant; the day, the disk and the
  collector may have changed in between.
\<close>

theorem second_cycle_no_new_records:
  "newRecordsCount (fst (fetchAndSaveNewRecords other (e\<lparr>today := d, write_fails := w\<rparr>)
      (snd (fetchAndSaveNewRecords other e s)))) = 0
   \<and> newRecordsCount (fst (fetchAndSendToAPI other
        (e\<lparr>today := d, write_fails := w, post_outcome := p\<rparr>)
        (snd (fetchAndSendToAPI other e s)))) = 0"
proof -
  obtain s1 b1 where first: "run_batch other e s = (s1, b1)" by (cases "run_batch other e s")
  define s2 where "s2 = snd (fetchAndSaveNewRecords other e s)"
  define t2 where "t2 = snd (fetchAndSendToAPI other e s)"
  obtain s3 b3 where second: "run_batch other e s2 = (s3, b3)" by (cases "run_batch other e s2")
  obtain t3 c3 where second': "run_batch other e t2 = (t3, c3)" by (cases "run_batch other e t2")
  have kept: "allAttendanceRecords s2 = allAttendanceRecords s1"
             "uniqueSignatures s2 = uniqueSignatures s1"
    by (simp_all add: s2_def fetchAndSaveNewRecords_def first Let_def saveRecords_frame)
  have kept': "allAttendanceRecords t2 = allAttendanceRecords s1"
              "uniqueSignatures t2 = uniqueSignatures s1"
    by (simp_all add: t2_def fetchAndSendToAPI_def first Let_def saveRecords_frame
          sendToCSharpAPI_frame)
  have "new_count b3 = 0"
    by (rule second_batch_finds_nothing [OF first kept second])
  moreover have "new_count c3 = 0"
    by (rule second_batch_finds_nothing [OF first kept' second'])
  ultimately show ?thesis
    unfolding s2_def [symmetric] t2_def [symmetric]
    by (simp add: fetchAndSaveNewRecords_def fetchAndSendToAPI_def run_batch_terminal
          second second' Let_def)
qed

subsection \<open>C5: a failed fetch is an offline result\<close>

text \<open>
  C5. When a step of the fetch throws (opening the session, reading the info, the
  user table or the logs, enriching a log, closing the session), \<open>fetchDeviceData\<close>
  returns the offline snapshot with empty lists and the message of an error that one
  of the steps threw. It returns a snapshot in every case: no error reaches the
  caller.
\<close>

theorem fetch_failure_is_offline:
  assumes "createSocket d = Inl err \<or> getInfo d = Inl err \<or> getUsers d = Inl err
         \<or> getAttendances d = Inl err
         \<or> (\<exists>users logs. getUsers d = Inr users \<and> getAttendances d = Inr logs
               \<and> enhanceLogs other ip (userMap_of (case users of None \<Rightarrow> [] | Some us \<Rightarrow> us))
                     (case logs of None \<Rightarrow> [] | Some ls \<Rightarrow> ls) = Inl err)
         \<or> disconnect d = Inl err"
  shows "\<exists>e. fst (fetchDeviceData other ip d) =
           \<lparr>info = [], allUsers = [], adminUsers = [], attendanceLogs = [], deviceIP = ip,
            status = ''offline'', error = Some (message e)\<rparr>
       \<and> (createSocket d = Inl e \<or> getInfo d = Inl e \<or> getUsers d = Inl e
           \<or> getAttendances d = Inl e
           \<or> (\<exists>users logs. getUsers d = Inr users \<and> getAttendances d = Inr logs
                 \<and> enhanceLogs other ip (userMap_of (case users of None \<Rightarrow> [] | Some us \<Rightarrow> us))
                       (case logs of None \<Rightarrow> [] | Some ls \<Rightarrow> ls) = Inl e)
           \<or> disconnect d = Inl e)"
proof (cases "createSocket d")
  case (Inl e)
  then show ?thesis by (auto simp: fetchDeviceData_def offline_def)
next
  case c: (Inr u)
  show ?thesis
  proof (cases "getInfo d")
    case (Inl e)
    with c show ?thesis by (auto simp: fetchDeviceData_def offline_def)
  next
    case i: (Inr inf)
    show ?thesis
    proof (cases "getUsers d")
      case (Inl e)
      with c i show ?thesis by (auto simp: fetchDeviceData_def offline_def)
    next
      case us: (Inr users)
      show ?thesis
      proof (cases "getAttendances d")
        case (Inl e)
        with c i us show ?thesis by (auto simp: fetchDeviceData_def offline_def)
      next
        case ls: (Inr logs)
        show ?thesis
        proof (cases "enhanceLogs other ip (userMap_of (case users of None \<Rightarrow> [] | Some us \<Rightarrow> us))
                        (case logs of None \<Rightarrow> [] | Some ls \<Rightarrow> ls)")
          case (Inl e)
          with c i us ls show ?thesis by (auto simp: fetchDeviceData_def offline_def Let_def)
        next
          case en: (Inr enhanced)
          show ?thesis
          proof (cases "disconnect d")
            case (Inl e)
            with c i us ls en show ?thesis by (auto simp: fetchDeviceData_def offline_def Let_def)
          next
            case (Inr v)
            with c i us ls en assms show ?thesis by simp
          qed
        qed
      qed
    qed
  qed
qed

text \<open>
  C5 at a terminal whose user table cannot be read.
\<close>

theorem fetch_failure_is_offline_witness:
  "(createSocket failing_reader = Inl (JsError (Str ''TIMEOUT_ON_RECEIVING_REQUEST_DATA''))
    \<or> getInfo failing_reader = Inl (JsError (Str ''TIMEOUT_ON_RECEIVING_REQUEST_DATA''))
    \<or> getUsers failing_reader = Inl (JsError (Str ''TIMEOUT_ON_RECEIVING_REQUEST_DATA''))
    \<or> getAttendances failing_reader = Inl (JsError (Str ''TIMEOUT_ON_RECEIVING_REQUEST_DATA''))
    \<or> (\<exists>users logs. getUsers failing_reader = Inr users \<and> getAttendances failing_reader = Inr logs
          \<and> enhanceLogs no_other_dates ''192.168.18.252''
                (userMap_of (case users of None \<Rightarrow> [] | Some us \<Rightarrow> us))
                (case logs of None \<Rightarrow> [] | Some ls \<Rightarrow> ls)
              = Inl (JsError (Str ''TIMEOUT_ON_RECEIVING_REQUEST_DATA'')))
    \<or> disconnect failing_reader = Inl (JsError (Str ''TIMEOUT_ON_RECEIVING_REQUEST_DATA'')))
   \<and> (\<exists>e. fst (fetchDeviceData no_other_dates ''192.168.18.252'' failing_reader) =
           \<lparr>info = [], allUsers = [], adminUsers = [], attendanceLogs = [],
            deviceIP = ''192.168.18.252'', status = ''offline'', error = Some (message e)\<rparr>)"
proof -
  have h: "createSocket failing_reader = Inl (JsError (Str ''TIMEOUT_ON_RECEIVING_REQUEST_DATA''))
    \<or> getInfo failing_reader = Inl (JsError (Str ''TIMEOUT_ON_RECEIVING_REQUEST_DATA''))
    \<or> getUsers failing_reader = Inl (JsError (Str ''TIMEOUT_ON_RECEIVING_REQUEST_DATA''))
    \<or> getAttendances failing_reader = Inl (JsError (Str ''TIMEOUT_ON_RECEIVING_REQUEST_DATA''))
    \<or> (\<exists>users logs. getUsers failing_reader = Inr users \<and> getAttendances failing_reader = Inr logs
          \<and> enhanceLogs no_other_dates ''192.168.18.252''
                (userMap_of (case users of None \<Rightarrow> [] | Some us \<Rightarrow> us))
                (case logs of None \<Rightarrow> [] | Some ls \<Rightarrow> ls)
              = Inl (JsError (Str ''TIMEOUT_ON_RECEIVING_REQUEST_DATA'')))
    \<or> disconnect failing_reader = Inl (JsError (Str ''TIMEOUT_ON_RECEIVING_REQUEST_DATA''))"
    by (simp add: failing_reader_def)
  from fetch_failure_is_offline [OF h] h show ?thesis
    by blast
qed

subsection \<open>C6: session teardown\<close>

text \<open>
  C6 fails on the code. At a terminal that opens its session and then fails to deliver
  the user table, \<open>fetchDeviceData\<close> returns without having called \<open>disconnect\<close>: the
  call stands at the end of the \<open>try\<close> block, and the \<open>catch\<close> block does not repeat it.
\<close>

theorem no_teardown_after_failed_read:
  "createSocket failing_reader = Inr ()
   \<and> snd (fetchDeviceData no_other_dates ''192.168.18.252'' failing_reader)
       = [CreateSocket, GetInfo, GetUsers]
   \<and> Disconnect \<notin> set (snd (fetchDeviceData no_other_dates ''192.168.18.252'' failing_reader))"
  by (simp add: fetch_failing_reader) (simp add: failing_reader_def)

subsection \<open>C7: no new record, no write\<close>

text \<open>
  C7. A cycle that counts no new record writes no file, has no effect on the data
  directory and leaves \<open>allAttendanceRecords\<close> as it was.
\<close>

theorem no_new_records_no_write:
  assumes "newRecordsCount (fst (fetchAndSaveNewRecords other e s)) = 0"
  shows "files (snd (fetchAndSaveNewRecords other e s)) = files s
       \<and> effects (snd (fetchAndSaveNewRecords other e s)) = effects s
       \<and> allAttendanceRecords (snd (fetchAndSaveNewRecords other e s)) = allAttendanceRecords s"
proof -
  obtain s1 b where rb: "run_batch other e s = (s1, b)" by (cases "run_batch other e s")
  from assms have zero: "new_count b = 0"
    by (simp add: fetchAndSaveNewRecords_def rb Let_def)
  from checkNewRecords_new [OF run_batch_state(1) [OF rb]] zero
  have "allAttendanceRecords s1 = allAttendanceRecords s" by auto
  with zero run_batch_state(2,3) [OF rb] show ?thesis
    by (simp add: fetchAndSaveNewRecords_def rb Let_def)
qed

text \<open>
  C7 at two unreachable terminals.
\<close>

theorem no_new_records_no_write_witness:
  "newRecordsCount (fst (fetchAndSaveNewRecords no_other_dates offline_env (initial_state []))) = 0
   \<and> files (snd (fetchAndSaveNewRecords no_other_dates offline_env (initial_state [])))
       = files (initial_state [])
   \<and> effects (snd (fetchAndSaveNewRecords no_other_dates offline_env (initial_state [])))
       = effects (initial_state [])
   \<and> allAttendanceRecords (snd (fetchAndSaveNewRecords no_other_dates offline_env (initial_state [])))
       = allAttendanceRecords (initial_state [])"
proof -
  have h: "newRecordsCount (fst (fetchAndSaveNewRecords no_other_dates offline_env (initial_state []))) = 0"
    by (simp add: fetchAndSaveNewRecords_def run_batch_offline empty_batch_def)
  from no_new_records_no_write [OF h] h show ?thesis
    by simp
qed

subsection \<open>C8: forwarding after the local commit\<close>

text \<open>
  C8. A forwarding cycle that counts new records appends them to
  \<open>allAttendanceRecords\<close> and writes the day file with the whole list before it posts
  them (the file holds the list unless the write itself failed, which \<open>saveRecords\<close>
  catches); and whatever the outcome of the POST, the result and the state of the cycle
  are the same.
\<close>

theorem forward_after_commit:
  assumes "0 < newRecordsCount (fst (fetchAndSendToAPI other e s))"
  shows "\<exists>new.
           allAttendanceRecords (snd (fetchAndSendToAPI other e s)) = allAttendanceRecords s @ new
         \<and> length new = newRecordsCount (fst (fetchAndSendToAPI other e s))
         \<and> effects (snd (fetchAndSendToAPI other e s))
             = effects s @ [WriteFileSync (day_file (today e)) (stringify (allAttendanceRecords s @ new)),
                            AxiosPost (convertToCSharpFormat other new)]
         \<and> (write_fails e
             \<or> map_of (files (snd (fetchAndSendToAPI other e s))) (day_file (today e))
                 = Some (stringify (allAttendanceRecords s @ new)))
         \<and> fetchAndSendToAPI other (e\<lparr>post_outcome := p\<rparr>) s = fetchAndSendToAPI other e s"
proof -
  obtain s1 b where rb: "run_batch other e s = (s1, b)" by (cases "run_batch other e s")
  have rb': "run_batch other (e\<lparr>post_outcome := p\<rparr>) s = (s1, b)"
    by (simp only: run_batch_post_outcome rb)
  from assms have pos: "0 < new_count b"
    by (simp add: fetchAndSendToAPI_def rb Let_def)
  from checkNewRecords_new [OF run_batch_state(1) [OF rb]] obtain new where
    new: "allAttendanceRecords s1 = allAttendanceRecords s @ new" and len: "new_count b = length new"
    by auto
  from pos len have ne: "new \<noteq> []" by auto
  have slice: "slice_last (new_count b) (allAttendanceRecords s1) = new"
    by (simp add: slice_last_def new len)
  have sent: "snd (sendToCSharpAPI other e' new (saveRecords e s1))
      = (saveRecords e s1)\<lparr>effects := effects (saveRecords e s1)
                                      @ [AxiosPost (convertToCSharpFormat other new)]\<rparr>" for e'
    by (rule sendToCSharpAPI_state [OF ne])
  have r: "fetchAndSendToAPI other e s =
     (\<lparr>deviceData = latestDeviceData s1, combinedData = combined_view b,
       newRecordsCount = new_count b, totalRecords = length (allAttendanceRecords s1),
       apiSent = True\<rparr>,
      (saveRecords e s1)\<lparr>effects := effects (saveRecords e s1)
                                      @ [AxiosPost (convertToCSharpFormat other new)]\<rparr>)"
    unfolding fetchAndSendToAPI_new [OF rb pos] slice sent ..
  have r': "fetchAndSendToAPI other (e\<lparr>post_outcome := p\<rparr>) s =
     (\<lparr>deviceData = latestDeviceData s1, combinedData = combined_view b,
       newRecordsCount = new_count b, totalRecords = length (allAttendanceRecords s1),
       apiSent = True\<rparr>,
      (saveRecords e s1)\<lparr>effects := effects (saveRecords e s1)
                                      @ [AxiosPost (convertToCSharpFormat other new)]\<rparr>)"
    unfolding fetchAndSendToAPI_new [OF rb' pos] slice saveRecords_post_outcome sent ..
  have "allAttendanceRecords (snd (fetchAndSendToAPI other e s)) = allAttendanceRecords s @ new"
    by (simp add: r saveRecords_frame new)
  moreover have "length new = newRecordsCount (fst (fetchAndSendToAPI other e s))"
    by (simp add: r len)
  moreover have "effects (snd (fetchAndSendToAPI other e s))
             = effects s @ [WriteFileSync (day_file (today e)) (stringify (allAttendanceRecords s @ new)),
                            AxiosPost (convertToCSharpFormat other new)]"
    by (simp add: r saveRecords_def Let_def new run_batch_state(3) [OF rb])
  moreover have "write_fails e
             \<or> map_of (files (snd (fetchAndSendToAPI other e s))) (day_file (today e))
                 = Some (stringify (allAttendanceRecords s @ new))"
    by (simp add: r saveRecords_def Let_def new update_conv')
  moreover have "fetchAndSendToAPI other (e\<lparr>post_outcome := p\<rparr>) s = fetchAndSendToAPI other e s"
    by (simp only: r r')
  ultimately show ?thesis
    by blast
qed

text \<open>
  C8 at the scenario, where the collector answers 500.
\<close>

theorem forward_after_commit_witness:
  "0 < newRecordsCount (fst (fetchAndSendToAPI no_other_dates scenario_env (initial_state [])))
   \<and> (\<exists>new.
           allAttendanceRecords (snd (fetchAndSendToAPI no_other_dates scenario_env (initial_state [])))
             = allAttendanceRecords (initial_state []) @ new
         \<and> length new = newRecordsCount (fst (fetchAndSendToAPI no_other_dates scenario_env (initial_state [])))
         \<and> effects (snd (fetchAndSendToAPI no_other_dates scenario_env (initial_state [])))
             = effects (initial_state [])
                 @ [WriteFileSync (day_file (today scenario_env))
                      (stringify (allAttendanceRecords (initial_state []) @ new)),
                    AxiosPost (convertToCSharpFormat no_other_dates new)]
         \<and> (write_fails scenario_env
             \<or> map_of (files (snd (fetchAndSendToAPI no_other_dates scenario_env (initial_state []))))
                   (day_file (today scenario_env))
                 = Some (stringify (allAttendanceRecords (initial_state []) @ new)))
         \<and> fetchAndSendToAPI no_other_dates (scenario_env\<lparr>post_outcome := Inr Null\<rparr>) (initial_state [])
             = fetchAndSendToAPI no_other_dates scenario_env (initial_state []))"
proof -
  have h: "0 < newRecordsCount (fst (fetchAndSendToAPI no_other_dates scenario_env (initial_state [])))"
    by (simp add: fetchAndSendToAPI_def run_batch_scenario Let_def)
  from forward_after_commit [OF h, of "Inr Null"] h show ?thesis
    by blast
qed

subsection \<open>C9: file names of the read and delete endpoints\<close>

text \<open>
  C9, counterexample. \<open>notes.json\<close> is no day-stamped name, and both endpoints accept
  it: the file is read, and it is deleted.
\<close>

theorem undated_filename_accepted:
  "\<not> day_stamped ''notes.json''
   \<and> fst (get_file ''notes.json'' notes_store) = (200, ContentBody (JsonArray []))
   \<and> effects (snd (get_file ''notes.json'' notes_store))
       = [ExistsSync ''notes.json'', ReadFileSync ''notes.json'']
   \<and> fst (delete_file ''notes.json'' notes_store) = (200, MessageBody ''File deleted successfully'')
   \<and> effects (snd (delete_file ''notes.json'' notes_store))
       = [ExistsSync ''notes.json'', UnlinkSync ''notes.json'']
   \<and> files (snd (delete_file ''notes.json'' notes_store)) = []"
  by (simp add: day_stamped_def get_file_def delete_file_def notes_store_def initial_state_def
        endsWith_def Let_def)

text \<open>
  C9, amended. A file name that contains \<open>..\<close> or does not end in \<open>.json\<close> is rejected
  with status 400 by both endpoints, which then leave the state as it was: no file is
  looked up, read or deleted.
\<close>

theorem invalid_filename_rejected:
  assumes "str_includes filename ''..'' \<or> \<not> endsWith filename ''.json''"
  shows "get_file filename s = ((400, ErrorBody ''Invalid filename''), s)
       \<and> delete_file filename s = ((400, ErrorBody ''Invalid filename''), s)"
  using assms by (simp add: get_file_def delete_file_def)

text \<open>
  The amended C9 at a name that climbs out of the data directory.
\<close>

theorem invalid_filename_rejected_witness:
  "(str_includes ''../attendance_2024-01-01.json'' ''..''
      \<or> \<not> endsWith ''../attendance_2024-01-01.json'' ''.json'')
   \<and> get_file ''../attendance_2024-01-01.json'' notes_store
       = ((400, ErrorBody ''Invalid filename''), notes_store)
   \<and> delete_file ''../attendance_2024-01-01.json'' notes_store
       = ((400, ErrorBody ''Invalid filename''), notes_store)"
proof -
  have h: "str_includes ''../attendance_2024-01-01.json'' ''..''
      \<or> \<not> endsWith ''../attendance_2024-01-01.json'' ''.json''"
    by simp
  from invalid_filename_rejected [OF h] h show ?thesis
    by blast
qed

subsection \<open>C10: \<open>userCounts\<close> counts before deduplication\<close>

text \<open>
  C10. \<open>info.userCounts\<close> of the combined snapshot is the length of the merged
  per-device user lists; when a \<open>userId\<close> of the first terminal is also one of the
  second, it is greater than the length of the deduplicated \<open>allUsers\<close>.
\<close>

theorem userCounts_counts_duplicates:
  assumes "u1 \<in> set (allUsers (fst (fetchDeviceData other ''192.168.18.253'' (terminal e ''192.168.18.253''))))"
    and "u2 \<in> set (allUsers (fst (fetchDeviceData other ''192.168.18.252'' (terminal e ''192.168.18.252''))))"
    and "get_prop u1 ''userId'' = get_prop u2 ''userId''"
  shows "get_prop (info (combinedData (fst (fetchAndSaveNewRecords other e s)))) ''userCounts''
           = Num (int (length (merged_users other e)))
       \<and> int (length (allUsers (combinedData (fst (fetchAndSaveNewRecords other e s)))))
           < int (length (merged_users other e))"
proof -
  let ?l1 = "allUsers (fst (fetchDeviceData other ''192.168.18.253'' (terminal e ''192.168.18.253'')))"
  let ?l2 = "allUsers (fst (fetchDeviceData other ''192.168.18.252'' (terminal e ''192.168.18.252'')))"
  let ?uid = "\<lambda>u. get_prop u ''userId''"
  have merged: "merged_users other e = ?l1 @ ?l2"
    by (simp add: merged_users_def devices_def)
  have "?uid u1 \<in> ?uid ` set ?l1"
    using assms(1) by (rule imageI)
  moreover have "?uid u2 \<in> ?uid ` set ?l2"
    using assms(2) by (rule imageI)
  ultimately have "set (map ?uid ?l1) \<inter> set (map ?uid ?l2) \<noteq> {}"
    unfolding assms(3) set_map by blast
  then have "\<not> distinct (map ?uid (?l1 @ ?l2))"
    by simp
  then have "card (set (map ?uid (merged_users other e))) \<noteq> length (map ?uid (merged_users other e))"
    unfolding merged using card_distinct by blast
  moreover have "card (set (map ?uid (merged_users other e))) \<le> length (map ?uid (merged_users other e))"
    by (rule card_length)
  ultimately have "card (?uid ` set (merged_users other e)) < length (merged_users other e)"
    by simp
  then show ?thesis
    by (simp add: combined_users_of_cycle uniqueByUserId_length)
qed

text \<open>
  C10 at two terminals that know user 1 as \<open>X\<close> and as \<open>Y\<close>.
\<close>

theorem userCounts_counts_duplicates_witness:
  "user_X \<in> set (allUsers (fst (fetchDeviceData no_other_dates ''192.168.18.253''
                    (terminal shared_user_env ''192.168.18.253''))))
   \<and> user_Y \<in> set (allUsers (fst (fetchDeviceData no_other_dates ''192.168.18.252''
                    (terminal shared_user_env ''192.168.18.252''))))
   \<and> get_prop user_X ''userId'' = get_prop user_Y ''userId''
   \<and> get_prop (info (combinedData (fst (fetchAndSaveNewRecords no_other_dates shared_user_env
                    (initial_state []))))) ''userCounts'' = Num 2
   \<and> int (length (allUsers (combinedData (fst (fetchAndSaveNewRecords no_other_dates shared_user_env
                    (initial_state [])))))) < 2"
proof -
  have h1: "user_X \<in> set (allUsers (fst (fetchDeviceData no_other_dates ''192.168.18.253''
                    (terminal shared_user_env ''192.168.18.253''))))"
    by (simp add: shared_user_env_def fetch_terminal_with_user)
  have h2: "user_Y \<in> set (allUsers (fst (fetchDeviceData no_other_dates ''192.168.18.252''
                    (terminal shared_user_env ''192.168.18.252''))))"
    by (simp add: shared_user_env_def fetch_terminal_with_user)
  have h3: "get_prop user_X ''userId'' = get_prop user_Y ''userId''"
    by (simp add: user_X_def user_Y_def get_prop_def)
  from userCounts_counts_duplicates [OF h1 h2 h3, of "initial_state []"] h1 h2 h3 show ?thesis
    by (simp add: merged_users_shared)
qed

end
